theory Spec2Isabelle
  imports Complex_Main "HOL-Library.Sublist"
begin

section \<open>Python strings\<close>

text \<open>
  The plugin works on Python \<open>str\<close> values: sequences of Unicode code points. Its
  literals are mostly Chinese text and emoji, so a string is modelled as the list of its code
  points, and every literal of \<open>plugin.py\<close> is written out as such a list (in hexadecimal,
  as Python's Unicode escapes show it).
\<close>

type_synonym pystr = "nat list"

text \<open>
  The code points for which \<open>str.isspace\<close> holds: what \<open>str.strip()\<close> removes and
  what the whitespace class of a \<open>str\<close> pattern matches.
\<close>

definition is_space :: "nat \<Rightarrow> bool" where
  "is_space c \<longleftrightarrow>
     c \<in> set [0x9, 0xA, 0xB, 0xC, 0xD, 0x1C, 0x1D, 0x1E, 0x1F, 0x20, 0x85, 0xA0, 0x1680,
              0x2000, 0x2001, 0x2002, 0x2003, 0x2004, 0x2005, 0x2006, 0x2007, 0x2008, 0x2009,
              0x200A, 0x2028, 0x2029, 0x202F, 0x205F, 0x3000]"

text \<open>\<open>s.strip()\<close>: leading and trailing whitespace removed.\<close>

definition py_strip :: "pystr \<Rightarrow> pystr" where
  "py_strip s = rev (dropWhile is_space (rev (dropWhile is_space s)))"

text \<open>\<open>str(n)\<close> of an \<open>int\<close>, as an f-string prints it: decimal digits, a minus sign first
  when negative.\<close>

fun digits_nat :: "nat \<Rightarrow> pystr" where
  "digits_nat n = (if n < 10 then [0x30 + n] else digits_nat (n div 10) @ [0x30 + n mod 10])"

declare digits_nat.simps [simp del]

definition py_str_int :: "int \<Rightarrow> pystr" where
  "py_str_int i = (if i < 0 then 0x2D # digits_nat (nat (- i)) else digits_nat (nat i))"

text \<open>\<open>sep.join(xs)\<close>.\<close>

fun py_join :: "pystr \<Rightarrow> pystr list \<Rightarrow> pystr" where
  "py_join sep [] = []"
| "py_join sep [x] = x"
| "py_join sep (x # y # ys) = x @ sep @ py_join sep (y # ys)"

text \<open>Truthiness of what \<open>dict.get\<close> returns for a flag: a missing key gives \<open>None\<close>
  (or the default \<open>False\<close>), which is falsy.\<close>

definition truthy :: "bool option \<Rightarrow> bool" where
  "truthy v = (case v of None \<Rightarrow> False | Some b \<Rightarrow> b)"

section \<open>The literals of plugin.py\<close>

subsection \<open>Command keywords and the command prefix (line 81)\<close>

text \<open>The literal prefix of the command pattern; 4 code points.\<close>
definition cmd_prefix :: pystr where
  "cmd_prefix = [0x2F, 0x68, 0x67, 0x74]"

text \<open>Action keyword "hint"; 2 code points.\<close>
definition kw_hint :: pystr where
  "kw_hint = [0x63D0, 0x793A]"

text \<open>Action keyword "question"; 2 code points.\<close>
definition kw_question :: pystr where
  "kw_question = [0x95EE, 0x9898]"

text \<open>Action keyword "organise clues"; 4 code points.\<close>
definition kw_clues :: pystr where
  "kw_clues = [0x6574, 0x7406, 0x7EBF, 0x7D22]"

text \<open>Action keyword "guess"; 2 code points.\<close>
definition kw_guess :: pystr where
  "kw_guess = [0x731C, 0x8C1C]"

text \<open>Action keyword "exit"; 2 code points.\<close>
definition kw_exit :: pystr where
  "kw_exit = [0x9000, 0x51FA]"

text \<open>Action keyword "help"; 2 code points.\<close>
definition kw_help :: pystr where
  "kw_help = [0x5E2E, 0x52A9]"

text \<open>Action keyword "reveal"; 2 code points.\<close>
definition kw_reveal :: pystr where
  "kw_reveal = [0x63ED, 0x79D8]"

text \<open>Action keyword "puzzle text"; 2 code points.\<close>
definition kw_show :: pystr where
  "kw_show = [0x6C64, 0x9762]"

subsection \<open>Replies and reason strings of execute (lines 108-183)\<close>

text \<open>The static help text, lines 82-93; 167 code points.\<close>
definition command_help :: pystr where
  "command_help =
    [0x6D77, 0x9F9F, 0x6C64, 0x6E38, 0x620F, 0x3A, 0xA, 0x2F, 0x68, 0x67, 0x74, 0x20, 0x95EE,
     0x9898, 0x28, 0x751F, 0x6210, 0x9898, 0x76EE, 0x29, 0xA, 0x2F, 0x68, 0x67, 0x74, 0x20,
     0x95EE, 0x9898, 0x20, 0x8FD9, 0x91CC, 0x52A0, 0x4E0A, 0x4F60, 0x7684, 0x95EE, 0x9898, 0x20,
     0x28, 0x5411, 0x62, 0x6F, 0x74, 0x63D0, 0x95EE, 0x29, 0xA, 0x2F, 0x68, 0x67, 0x74, 0x20,
     0x63D0, 0x793A, 0x20, 0x28, 0x83B7, 0x53D6, 0x63D0, 0x793A, 0x29, 0xA, 0x2F, 0x68, 0x67,
     0x74, 0x20, 0x6574, 0x7406, 0x7EBF, 0x7D22, 0x20, 0x28, 0x6574, 0x7406, 0x7EBF, 0x7D22,
     0x29, 0xA, 0x2F, 0x68, 0x67, 0x74, 0x20, 0x6C64, 0x9762, 0x20, 0x28, 0x67E5, 0x770B, 0x5F53,
     0x524D, 0x9898, 0x76EE, 0x29, 0xA, 0x2F, 0x68, 0x67, 0x74, 0x20, 0x731C, 0x8C1C, 0x20, 0x3C,
     0x7B54, 0x6848, 0x3E, 0x20, 0x28, 0x731C, 0x6D4B, 0x6C64, 0x5E95, 0x29, 0xA, 0x2F, 0x68,
     0x67, 0x74, 0x20, 0x9000, 0x51FA, 0x20, 0x28, 0x7ED3, 0x675F, 0x6E38, 0x620F, 0x29, 0xA,
     0x2F, 0x68, 0x67, 0x74, 0x20, 0x63ED, 0x79D8, 0x20, 0x28, 0x76F4, 0x63A5, 0x67E5, 0x770B,
     0x7B54, 0x6848, 0x5E76, 0x7ED3, 0x675F, 0x6E38, 0x620F, 0x29, 0xA, 0x2F, 0x68, 0x67, 0x74,
     0x20, 0x5E2E, 0x52A9, 0x20, 0x28, 0x67E5, 0x770B, 0x5E2E, 0x52A9, 0x29]"

text \<open>Reply: the chat context cannot be obtained; 13 code points.\<close>
definition msg_no_chat_stream :: pystr where
  "msg_no_chat_stream =
    [0x274C, 0x20, 0x65E0, 0x6CD5, 0x83B7, 0x53D6, 0x804A, 0x5929, 0x4E0A, 0x4E0B, 0x6587,
     0x4FE1, 0x606F]"

text \<open>Reason: chat_stream missing; 13 code points.\<close>
definition reason_no_chat_stream :: pystr where
  "reason_no_chat_stream = [0x7F3A, 0x5C11, 0x63, 0x68, 0x61, 0x74, 0x5F, 0x73, 0x74, 0x72, 0x65, 0x61, 0x6D]"

text \<open>Reply: the plugin is disabled; 8 code points.\<close>
definition msg_disabled :: pystr where
  "msg_disabled = [0x274C, 0x20, 0x63D2, 0x4EF6, 0x5DF2, 0x88AB, 0x7981, 0x7528]"

text \<open>Reason: plugin not enabled; 5 code points.\<close>
definition reason_disabled :: pystr where
  "reason_disabled = [0x63D2, 0x4EF6, 0x672A, 0x542F, 0x7528]"

text \<open>Reply: the LLM API configuration is incomplete; 15 code points.\<close>
definition msg_config_incomplete :: pystr where
  "msg_config_incomplete =
    [0x274C, 0x20, 0x4C, 0x4C, 0x4D, 0x20, 0x41, 0x50, 0x49, 0x20, 0x914D, 0x7F6E, 0x4E0D,
     0x5B8C, 0x6574]"

text \<open>Reason: API configuration error; 7 code points.\<close>
definition reason_config :: pystr where
  "reason_config = [0x41, 0x50, 0x49, 0x914D, 0x7F6E, 0x9519, 0x8BEF]"

text \<open>The fallback session key "unknown"; 7 code points.\<close>
definition unknown_id :: pystr where
  "unknown_id = [0x75, 0x6E, 0x6B, 0x6E, 0x6F, 0x77, 0x6E]"

text \<open>Reply: there is no game in progress (lines 156, 208, 229, 247); 12 code points.\<close>
definition msg_no_game :: pystr where
  "msg_no_game = [0x274C, 0x20, 0x5F53, 0x524D, 0x6CA1, 0x6709, 0x8FDB, 0x884C, 0x4E2D, 0x7684, 0x6E38, 0x620F]"

text \<open>Reason: no game (lines 157, 166, 209, 230, 248); 3 code points.\<close>
definition reason_no_game :: pystr where
  "reason_no_game = [0x65E0, 0x6E38, 0x620F]"

text \<open>Reply head of the puzzle-text action; 11 code points.\<close>
definition show_reply_head :: pystr where
  "show_reply_head = [0x1F372, 0x20, 0x5F53, 0x524D, 0x6D77, 0x9F9F, 0x6C64, 0x9898, 0x76EE, 0x3A, 0xA]"

text \<open>Reason: puzzle text shown; 4 code points.\<close>
definition reason_show :: pystr where
  "reason_show = [0x67E5, 0x770B, 0x6C64, 0x9762]"

text \<open>Reply of reveal without a game: "... first use /hgt to generate a puzzle"; 29 code points.\<close>
definition msg_no_game_reveal :: pystr where
  "msg_no_game_reveal =
    [0x274C, 0x20, 0x5F53, 0x524D, 0x6CA1, 0x6709, 0x6B63, 0x5728, 0x8FDB, 0x884C, 0x7684,
     0x6E38, 0x620F, 0x3002, 0x8BF7, 0x5148, 0x4F7F, 0x7528, 0x20, 0x2F, 0x68, 0x67, 0x74, 0x20,
     0x751F, 0x6210, 0x9898, 0x76EE, 0x3002]"

text \<open>The default "no answer" of the reveal branch; 3 code points.\<close>
definition default_answer :: pystr where
  "default_answer = [0x65E0, 0x7B54, 0x6848]"

text \<open>Reply head of reveal; 12 code points.\<close>
definition reveal_reply_head :: pystr where
  "reveal_reply_head = [0x1F513, 0x20, 0x5F53, 0x524D, 0x6D77, 0x9F9F, 0x6C64, 0x7B54, 0x6848, 0x662F, 0x3A, 0xA]"

text \<open>Reply tail of reveal: "game over"; 6 code points.\<close>
definition reveal_reply_tail :: pystr where
  "reveal_reply_tail = [0xA, 0x6E38, 0x620F, 0x7ED3, 0x675F, 0x3002]"

text \<open>Reason: revealed; 3 code points.\<close>
definition reason_revealed :: pystr where
  "reason_revealed = [0x5DF2, 0x63ED, 0x79D8]"

text \<open>Reason: help shown; 4 code points.\<close>
definition reason_help :: pystr where
  "reason_help = [0x663E, 0x793A, 0x5E2E, 0x52A9]"

subsection \<open>Strings of _handle_question (lines 186-203)\<close>

text \<open>Prompt up to the current question; 20 code points.\<close>
definition question_prompt_1 :: pystr where
  "question_prompt_1 =
    [0xA, 0x4F60, 0x662F, 0x4E00, 0x4E2A, 0x6D77, 0x9F9F, 0x6C64, 0x6E38, 0x620F, 0x4E13, 0x5BB6,
     0x3002, 0xA, 0x5F53, 0x524D, 0x9898, 0x76EE, 0x3A, 0x20]"

text \<open>Prompt between question and answer; 7 code points.\<close>
definition question_prompt_2 :: pystr where
  "question_prompt_2 = [0xA, 0x5F53, 0x524D, 0x7B54, 0x6848, 0x3A, 0x20]"

text \<open>Prompt between answer and the user question; 7 code points.\<close>
definition question_prompt_3 :: pystr where
  "question_prompt_3 = [0xA, 0x7528, 0x6237, 0x63D0, 0x95EE, 0x3A, 0x20]"

text \<open>Prompt tail; 21 code points.\<close>
definition question_prompt_4 :: pystr where
  "question_prompt_4 =
    [0xA, 0x8BF7, 0x7528, 0x7B80, 0x77ED, 0x7684, 0x56DE, 0x7B54, 0x56DE, 0x5E94, 0x73A9, 0x5BB6,
     0xFF0C, 0x4E0D, 0x8981, 0x900F, 0x9732, 0x7B54, 0x6848, 0x3002, 0xA]"

text \<open>The fallback reply "the LLM returned no answer"; 10 code points.\<close>
definition msg_no_llm_answer :: pystr where
  "msg_no_llm_answer = [0x274C, 0x20, 0x4C, 0x4C, 0x4D, 0x672A, 0x8FD4, 0x56DE, 0x56DE, 0x7B54]"

text \<open>Reply head "you asked: "; 6 code points.\<close>
definition ask_reply_1 :: pystr where
  "ask_reply_1 = [0x2753, 0x20, 0x4F60, 0x95EE, 0x3A, 0x20]"

text \<open>Reply middle "answer: "; 7 code points.\<close>
definition ask_reply_2 :: pystr where
  "ask_reply_2 = [0xA, 0x1F4A1, 0x20, 0x56DE, 0x7B54, 0x3A, 0x20]"

text \<open>Reason: question answered; 6 code points.\<close>
definition reason_question_done :: pystr where
  "reason_question_done = [0x95EE, 0x9898, 0x56DE, 0x7B54, 0x5B8C, 0x6210]"

subsection \<open>Strings of _handle_hint (lines 205-224)\<close>

text \<open>Reply: the hints are used up; 7 code points.\<close>
definition msg_hints_exhausted :: pystr where
  "msg_hints_exhausted = [0x1F4A1, 0x20, 0x63D0, 0x793A, 0x5DF2, 0x7528, 0x5B8C]"

text \<open>Reason: hints exhausted; 4 code points.\<close>
definition reason_hints_exhausted :: pystr where
  "reason_hints_exhausted = [0x63D0, 0x793A, 0x7528, 0x5C3D]"

text \<open>Prompt up to the question; 18 code points.\<close>
definition hint_prompt_1 :: pystr where
  "hint_prompt_1 =
    [0xA, 0x4F60, 0x662F, 0x4E00, 0x4E2A, 0x6D77, 0x9F9F, 0x6C64, 0x6E38, 0x620F, 0x4E13, 0x5BB6,
     0x3002, 0xA, 0x9898, 0x76EE, 0x3A, 0x20]"

text \<open>Prompt between question and answer; 5 code points.\<close>
definition hint_prompt_2 :: pystr where
  "hint_prompt_2 = [0xA, 0x7B54, 0x6848, 0x3A, 0x20]"

text \<open>Prompt tail; 18 code points.\<close>
definition hint_prompt_3 :: pystr where
  "hint_prompt_3 =
    [0xA, 0x8BF7, 0x63D0, 0x4F9B, 0x4E00, 0x4E2A, 0x4E0D, 0x76F4, 0x63A5, 0x900F, 0x9732, 0x7B54,
     0x6848, 0x7684, 0x63D0, 0x793A, 0x3002, 0xA]"

text \<open>Reply head "hint ("; 6 code points.\<close>
definition hint_reply_1 :: pystr where
  "hint_reply_1 = [0x1F4A1, 0x20, 0x63D0, 0x793A, 0x20, 0x28]"

text \<open>Reply middle "/3): "; 5 code points.\<close>
definition hint_reply_2 :: pystr where
  "hint_reply_2 = [0x2F, 0x33, 0x29, 0x3A, 0x20]"

text \<open>Reason: hint done; 4 code points.\<close>
definition reason_hint_done :: pystr where
  "reason_hint_done = [0x63D0, 0x793A, 0x5B8C, 0x6210]"

subsection \<open>Strings of _handle_clues (lines 226-242)\<close>

text \<open>The separator of the join; 1 code point.\<close>
definition newline :: pystr where
  "newline = [0xA]"

text \<open>Prompt up to the question; 18 code points.\<close>
definition clues_prompt_1 :: pystr where
  "clues_prompt_1 =
    [0xA, 0x4F60, 0x662F, 0x4E00, 0x4E2A, 0x6D77, 0x9F9F, 0x6C64, 0x6E38, 0x620F, 0x4E13, 0x5BB6,
     0x3002, 0xA, 0x9898, 0x76EE, 0x3A, 0x20]"

text \<open>Prompt between question and answer; 5 code points.\<close>
definition clues_prompt_2 :: pystr where
  "clues_prompt_2 = [0xA, 0x7B54, 0x6848, 0x3A, 0x20]"

text \<open>Prompt between answer and the records; 27 code points.\<close>
definition clues_prompt_3 :: pystr where
  "clues_prompt_3 =
    [0xA, 0x8BF7, 0x6574, 0x7406, 0x5173, 0x952E, 0x7EBF, 0x7D22, 0xFF0C, 0x7B80, 0x660E, 0x5217,
     0x51FA, 0xFF0C, 0x4E0D, 0x5305, 0x542B, 0x7B54, 0x6848, 0x3002, 0xA, 0x5DF2, 0x6709, 0x8BB0,
     0x5F55, 0x3A, 0xA]"

text \<open>Prompt tail; 1 code point.\<close>
definition clues_prompt_4 :: pystr where
  "clues_prompt_4 = [0xA]"

text \<open>Reply head "clue summary:"; 8 code points.\<close>
definition clues_reply_head :: pystr where
  "clues_reply_head = [0x1F4DD, 0x20, 0x7EBF, 0x7D22, 0x6574, 0x7406, 0x3A, 0xA]"

text \<open>Reason: clues organised; 6 code points.\<close>
definition reason_clues_done :: pystr where
  "reason_clues_done = [0x7EBF, 0x7D22, 0x6574, 0x7406, 0x5B8C, 0x6210]"

subsection \<open>Strings of _handle_guess (lines 244-272)\<close>

text \<open>Reply: the game has ended, start a new one; 14 code points.\<close>
definition msg_game_ended :: pystr where
  "msg_game_ended =
    [0x274C, 0x20, 0x6E38, 0x620F, 0x5DF2, 0x7ED3, 0x675F, 0xFF0C, 0x8BF7, 0x5F00, 0x59CB,
     0x65B0, 0x6E38, 0x620F]"

text \<open>Reason: game already ended; 5 code points.\<close>
definition reason_game_ended :: pystr where
  "reason_game_ended = [0x6E38, 0x620F, 0x5DF2, 0x7ED3, 0x675F]"

text \<open>Prompt up to the question; 16 code points.\<close>
definition guess_prompt_1 :: pystr where
  "guess_prompt_1 =
    [0xA, 0x4F60, 0x662F, 0x6D77, 0x9F9F, 0x6C64, 0x6E38, 0x620F, 0x4E13, 0x5BB6, 0x3002, 0xA,
     0x9898, 0x76EE, 0x3A, 0x20]"

text \<open>Prompt between question and answer; 5 code points.\<close>
definition guess_prompt_2 :: pystr where
  "guess_prompt_2 = [0xA, 0x7B54, 0x6848, 0x3A, 0x20]"

text \<open>Prompt between answer and the guess; 7 code points.\<close>
definition guess_prompt_3 :: pystr where
  "guess_prompt_3 = [0xA, 0x7528, 0x6237, 0x731C, 0x6D4B, 0x3A, 0x20]"

text \<open>Prompt tail: answer only yes / no / unrelated; 15 code points.\<close>
definition guess_prompt_4 :: pystr where
  "guess_prompt_4 =
    [0xA, 0x8BF7, 0x4EC5, 0x56DE, 0x7B54, 0x20, 0x662F, 0x2F, 0x4E0D, 0x662F, 0x2F, 0x65E0,
     0x5173, 0x3002, 0xA]"

text \<open>The classifier token "yes" (U+662F); 1 code point.\<close>
definition token_yes :: pystr where
  "token_yes = [0x662F]"

text \<open>The classifier token "no" (U+4E0D U+662F); 2 code points.\<close>
definition token_no :: pystr where
  "token_no = [0x4E0D, 0x662F]"

text \<open>Reply head "guessed right! answer: "; 10 code points.\<close>
definition win_reply_head :: pystr where
  "win_reply_head = [0x1F389, 0x20, 0x731C, 0x5BF9, 0x4E86, 0xFF01, 0x7B54, 0x6848, 0x3A, 0x20]"

text \<open>Reply head "guessed wrong! hints used: "; 12 code points.\<close>
definition wrong_reply_1 :: pystr where
  "wrong_reply_1 = [0x274C, 0x20, 0x731C, 0x9519, 0x4E86, 0xFF01, 0x63D0, 0x793A, 0x6B21, 0x6570, 0x3A, 0x20]"

text \<open>Reply tail "/3"; 2 code points.\<close>
definition wrong_reply_2 :: pystr where
  "wrong_reply_2 = [0x2F, 0x33]"

text \<open>Reply: your answer is unrelated to the puzzle; 11 code points.\<close>
definition msg_unrelated :: pystr where
  "msg_unrelated = [0x2753, 0x20, 0x4F60, 0x7684, 0x56DE, 0x7B54, 0x4E0E, 0x9898, 0x76EE, 0x65E0, 0x5173]"

text \<open>Reason: guess done; 4 code points.\<close>
definition reason_guess_done :: pystr where
  "reason_guess_done = [0x731C, 0x8C1C, 0x5B8C, 0x6210]"

subsection \<open>Strings of _handle_exit (lines 274-277)\<close>

text \<open>Reply: the game was exited; 7 code points.\<close>
definition msg_exited :: pystr where
  "msg_exited = [0x1F6D1, 0x20, 0x6E38, 0x620F, 0x5DF2, 0x9000, 0x51FA]"

text \<open>Reason: exit game; 4 code points.\<close>
definition reason_exit :: pystr where
  "reason_exit = [0x9000, 0x51FA, 0x6E38, 0x620F]"

subsection \<open>Strings of _start_new_game (lines 279-344)\<close>

text \<open>Reply: a puzzle is already in progress, reveal or exit first; 44 code points.\<close>
definition msg_already_running :: pystr where
  "msg_already_running =
    [0x26A0, 0xFE0F, 0x20, 0x5F53, 0x524D, 0x5DF2, 0x7ECF, 0x6709, 0x9898, 0x76EE, 0x5728,
     0x8FDB, 0x884C, 0x4E2D, 0xFF0C, 0x8BF7, 0x5148, 0x4F7F, 0x7528, 0x20, 0x2F, 0x68, 0x67,
     0x74, 0x20, 0x63ED, 0x79D8, 0x20, 0x6216, 0x20, 0x2F, 0x68, 0x67, 0x74, 0x20, 0x9000,
     0x51FA, 0x20, 0x518D, 0x5F00, 0x59CB, 0x65B0, 0x9898, 0x3002]"

text \<open>Reason: a game is already in progress; 8 code points.\<close>
definition reason_already_running :: pystr where
  "reason_already_running = [0x5DF2, 0x6709, 0x8FDB, 0x884C, 0x4E2D, 0x7684, 0x6E38, 0x620F]"

text \<open>The puzzle-generation prompt, lines 288-317; 945 code points.\<close>
definition prompt_question :: pystr where
  "prompt_question =
    [0xA, 0x4F60, 0x662F, 0x4E00, 0x4E2A, 0x4E13, 0x4E1A, 0x7684, 0x6D77, 0x9F9F, 0x6C64, 0x6545,
     0x4E8B, 0x751F, 0x6210, 0x5668, 0x3002, 0xA, 0x8BF7, 0x751F, 0x6210, 0x4E00, 0x4E2A, 0x65B0,
     0x9896, 0x7684, 0x6D77, 0x9F9F, 0x6C64, 0x9898, 0x76EE, 0xFF0C, 0x4E0D, 0x8981, 0x4F7F,
     0x7528, 0x7ECF, 0x5178, 0x9898, 0x6750, 0xFF08, 0x6BD4, 0x5982, 0xFF1A, 0x9910, 0x9986,
     0x3001, 0x98DE, 0x673A, 0x3001, 0x5A5A, 0x793C, 0x3001, 0x6D77, 0x9F9F, 0x7B49, 0xFF09,
     0x3002, 0xA, 0x8981, 0x6C42, 0xFF1A, 0xA, 0x31, 0x2E, 0x20, 0x9898, 0x76EE, 0x7B80, 0x77ED,
     0xFF0C, 0x6700, 0x597D, 0x20, 0x32, 0x35, 0x7E, 0x35, 0x30, 0x20, 0x5B57, 0x3002, 0xA, 0x32,
     0x2E, 0x20, 0x9898, 0x76EE, 0x5FC5, 0x987B, 0x662F, 0x6D77, 0x9F9F, 0x6C64, 0x98CE, 0x683C,
     0x7684, 0x63A8, 0x7406, 0x8C1C, 0x9898, 0xFF0C, 0x5305, 0x542B, 0x4E00, 0x4E2A, 0x770B,
     0x4F3C, 0x77DB, 0x76FE, 0x6216, 0x5947, 0x602A, 0x7684, 0x60C5, 0x5883, 0x3002, 0xA, 0x33,
     0x2E, 0x20, 0x4E0D, 0x8981, 0x5728, 0x9898, 0x76EE, 0x91CC, 0x5305, 0x542B, 0x7B54, 0x6848,
     0x3002, 0xA, 0x34, 0x2E, 0x20, 0x53EF, 0x4EE5, 0x5305, 0x542B, 0x730E, 0x5947, 0x548C,
     0x6050, 0x6016, 0x5143, 0x7D20, 0x28, 0x5982, 0x6740, 0x4EBA, 0x4E4B, 0x7C7B, 0x7684, 0x29,
     0x3002, 0xA, 0x35, 0x2E, 0x20, 0x9898, 0x76EE, 0x7ED3, 0x5C3E, 0x5E94, 0x8BE5, 0x7559,
     0x6709, 0x60AC, 0x5FF5, 0xFF0C, 0x8BA9, 0x4EBA, 0x597D, 0x5947, 0x771F, 0x76F8, 0x3002, 0xA,
     0x36, 0x2E, 0x20, 0x751F, 0x6210, 0x7684, 0x9898, 0x76EE, 0x5E94, 0x8BE5, 0x662F, 0x539F,
     0x521B, 0x7684, 0xFF0C, 0x4E0D, 0x8981, 0x590D, 0x5236, 0x5DF2, 0x6709, 0x4F8B, 0x5B50,
     0x3002, 0xA, 0xA, 0x8BF7, 0x751F, 0x6210, 0x4E00, 0x4E2A, 0x6D77, 0x9F9F, 0x6C64, 0x9898,
     0x76EE, 0x3002, 0xA, 0xA, 0x53EF, 0x4EE5, 0x53C2, 0x8003, 0x7684, 0x6D77, 0x9F9F, 0x6C64,
     0x6C64, 0x9762, 0x61, 0x6E, 0x64, 0x6C64, 0x5E95, 0xFF08, 0x4EC5, 0x4F9B, 0x53C2, 0x8003,
     0xFF0C, 0x53EF, 0x4EE5, 0x5957, 0x6A21, 0x7248, 0x6216, 0x8005, 0x76F4, 0x63A5, 0x642C,
     0xFF0C, 0x4F46, 0x662F, 0x4E25, 0x683C, 0x6309, 0x7167, 0x8F93, 0x51FA, 0x683C, 0x5F0F,
     0xFF0C, 0x4EC5, 0x8F93, 0x51FA, 0x6C64, 0x9762, 0xFF09, 0xFF1A, 0xA, 0x31, 0x2E, 0x3010,
     0x5B50, 0x7684, 0x7231, 0x3011, 0xA, 0x6C64, 0x9762, 0xFF1A, 0x6211, 0x7684, 0x7236, 0x6BCD,
     0x90FD, 0x4E0D, 0x7406, 0x6211, 0xFF0C, 0x4F46, 0x6211, 0x8FD8, 0x662F, 0x5F88, 0x7231,
     0x4ED6, 0x4EEC, 0x3002, 0xA, 0x6C64, 0x5E95, 0xFF1A, 0x5C0F, 0x65F6, 0x5019, 0x6211, 0x662F,
     0x4E2A, 0x5F88, 0x542C, 0x8BDD, 0x7684, 0x5B69, 0x5B50, 0xFF0C, 0x7238, 0x7238, 0x5988,
     0x5988, 0x7ECF, 0x5E38, 0x7ED9, 0x6211, 0x597D, 0x5403, 0x7684, 0x6C34, 0x679C, 0xFF0C,
     0x6211, 0x5403, 0x4E0D, 0x5B8C, 0x3002, 0x4ED6, 0x4EEC, 0x5C31, 0x544A, 0x8BC9, 0x6211,
     0x559C, 0x6B22, 0x7684, 0x4E1C, 0x897F, 0x4E00, 0x5B9A, 0x8981, 0x653E, 0x8FDB, 0x51B0,
     0x7BB1, 0xFF0C, 0x8FD9, 0x6837, 0x53EF, 0x4EE5, 0x4FDD, 0x9C9C, 0xFF0C, 0x8BB0, 0x5F97,
     0x90A3, 0x65F6, 0x5019, 0x4ED6, 0x4EEC, 0x5DE5, 0x4F5C, 0x53EF, 0x8F9B, 0x82E6, 0x4E86,
     0xFF0C, 0x7ECF, 0x5E38, 0x52A0, 0x73ED, 0x5230, 0x6DF1, 0x591C, 0x3002, 0x6CA1, 0x7761,
     0x8FC7, 0x4E00, 0x4E2A, 0x597D, 0x89C9, 0x3002, 0x4E8E, 0x662F, 0x6211, 0x800D, 0x4E86,
     0x4E2A, 0x5C0F, 0x806A, 0x660E, 0xFF0C, 0x5728, 0x4ED6, 0x4EEC, 0x7684, 0x6C34, 0x91CC,
     0x4E0B, 0x4E86, 0x5B89, 0x7720, 0x836F, 0x3002, 0x4ED6, 0x4EEC, 0x7761, 0x5F97, 0x53EF,
     0x9999, 0x4E86, 0xFF0C, 0x7136, 0x540E, 0x6211, 0x628A, 0x4ED6, 0x4EEC, 0x653E, 0x8FDB,
     0x51B0, 0x7BB1, 0x91CC, 0xFF0C, 0x4ECE, 0x90A3, 0x4EE5, 0x540E, 0x6211, 0x6BCF, 0x5929,
     0x90FD, 0x4F1A, 0x5BF9, 0x4ED6, 0x4EEC, 0x8BF4, 0xFF1A, 0x7238, 0x7238, 0x5988, 0x5988,
     0x6211, 0x7231, 0x4F60, 0x4EEC, 0x3002, 0x73B0, 0x5728, 0x6211, 0x90FD, 0x516D, 0x5341,
     0x4E86, 0xFF0C, 0x4ED6, 0x4EEC, 0x8FD8, 0x662F, 0x90A3, 0x4E48, 0x5E74, 0x8F7B, 0x3002, 0xA,
     0xA, 0x32, 0x2E, 0x3010, 0x821E, 0x3011, 0xA, 0x6C64, 0x9762, 0xFF1A, 0x6211, 0x516D,
     0x5C81, 0x90A3, 0x5E74, 0xFF0C, 0x5916, 0x516C, 0x53BB, 0x4E16, 0xFF0C, 0x6211, 0x548C,
     0x4EB2, 0x4EBA, 0x4E00, 0x8D77, 0x53BB, 0x796D, 0x5960, 0xFF0C, 0x548C, 0x59D0, 0x59D0,
     0x73A9, 0x6349, 0x8FF7, 0x85CF, 0xFF0C, 0x7136, 0x540E, 0x6211, 0x5BF9, 0x6BCD, 0x4EB2,
     0x8BF4, 0x4E86, 0x53E5, 0x8BDD, 0x628A, 0x5979, 0x5413, 0x660F, 0x4E86, 0x8FC7, 0x53BB,
     0x3002, 0xA, 0x6C64, 0x5E95, 0xFF1A, 0x6211, 0x53BB, 0x53C2, 0x52A0, 0x5916, 0x516C, 0x7684,
     0x846C, 0x793C, 0xFF0C, 0x540C, 0x884C, 0x7684, 0x8FD8, 0x6709, 0x6BD4, 0x6211, 0x5927,
     0x4E24, 0x5C81, 0x7684, 0x59D0, 0x59D0, 0xFF0C, 0x6211, 0x548C, 0x5979, 0x5B8C, 0x6349,
     0x8FF7, 0x85CF, 0x6211, 0x6CA1, 0x6709, 0x627E, 0x5230, 0x5979, 0x6CA1, 0x60F3, 0x5230,
     0x5979, 0x8EB2, 0x5728, 0x4E86, 0x7EB8, 0x505A, 0x7684, 0x623F, 0x5B50, 0x91CC, 0xFF0C,
     0x5F53, 0x7EB8, 0x623F, 0x5B50, 0x88AB, 0x70B9, 0x71C3, 0xFF0C, 0x6211, 0x770B, 0x89C1,
     0x59D0, 0x59D0, 0x5728, 0x8DF3, 0x821E, 0xFF0C, 0x6211, 0x5BF9, 0x5988, 0x8BF4, 0xFF0C,
     0x5988, 0x59D0, 0x59D0, 0x5728, 0x90A3, 0x623F, 0x5B50, 0x91CC, 0x9762, 0x8DF3, 0x821E,
     0xFF0C, 0x56E0, 0x4E3A, 0x59D0, 0x59D0, 0x88AB, 0x70E7, 0x6B7B, 0x4E86, 0xFF0C, 0x6211,
     0x4E00, 0x76F4, 0x8BB0, 0x5F97, 0x8FD9, 0x4E2A, 0x4E8B, 0x3002, 0xA, 0xA, 0x33, 0x2E,
     0x3010, 0x63D2, 0x8FDB, 0x6765, 0x3011, 0xA, 0x6C64, 0x9762, 0xFF1A, 0x4ED6, 0x8FC5, 0x901F,
     0x7684, 0x63D2, 0x8FDB, 0x6765, 0xFF0C, 0x53C8, 0x8FC5, 0x901F, 0x7684, 0x62D4, 0x51FA,
     0x53BB, 0x3002, 0x53CD, 0x53CD, 0x590D, 0x590D, 0xFF0C, 0x6211, 0x6D41, 0x8840, 0x4E86,
     0x3002, 0x4ED6, 0x6EE1, 0x5934, 0x5927, 0x6C57, 0xFF0C, 0x9732, 0x51FA, 0x4E86, 0x7B11,
     0x5BB9, 0x3002, 0x201C, 0x554A, 0xFF0C, 0x597D, 0x8212, 0x670D, 0x201D, 0xA, 0x6C64, 0x5E95,
     0xFF1A, 0x4ED6, 0x662F, 0x62A4, 0x58EB, 0xFF0C, 0x5728, 0x7ED9, 0x6211, 0x6253, 0x9488,
     0xFF0C, 0x9488, 0x5934, 0x6253, 0x8FDB, 0x8840, 0x7BA1, 0x91CC, 0x9762, 0x4F1A, 0x56DE,
     0x8840, 0xFF0C, 0x56E0, 0x6B64, 0x8BF4, 0x660E, 0x6210, 0x529F, 0x4E86, 0x3002, 0x6D41,
     0x6C57, 0x662F, 0x56E0, 0x4E3A, 0x53CD, 0x53CD, 0x590D, 0x590D, 0x4E86, 0x597D, 0x51E0,
     0x6B21, 0x3002, 0xA, 0xA, 0x34, 0x2E, 0x3010, 0x65E0, 0x7F6A, 0x3011, 0xA, 0x6C64, 0x9762,
     0xFF1A, 0x22, 0x5979, 0x662F, 0x81EA, 0x613F, 0x7684, 0xFF01, 0x22, 0x5C38, 0x4F53, 0x65E0,
     0x66B4, 0x529B, 0x75D5, 0x8FF9, 0xFF0C, 0x51F6, 0x624B, 0x88AB, 0x5224, 0x65E0, 0x7F6A,
     0x3002, 0x22, 0x6211, 0x662F, 0x65E0, 0x7F6A, 0x7684, 0xFF01, 0x22, 0x5C38, 0x4F53, 0x6709,
     0x66B4, 0x529B, 0x75D5, 0x8FF9, 0xFF0C, 0x51F6, 0x624B, 0x4E5F, 0x88AB, 0x5224, 0x65E0,
     0x7F6A, 0x3002, 0xA, 0x6C64, 0x5E95, 0xFF1A, 0x7B2C, 0x4E00, 0x5E55, 0xFF1A, 0x5973, 0x513F,
     0x4E3A, 0x6551, 0x4ED6, 0x4EBA, 0xFF08, 0x5982, 0x5668, 0x5B98, 0x79FB, 0x690D, 0xFF09,
     0x81EA, 0x613F, 0x727A, 0x7272, 0xFF0C, 0x6240, 0x4EE5, 0x22, 0x81EA, 0x613F, 0x22, 0x4E14,
     0x65E0, 0x66B4, 0x529B, 0x75D5, 0x8FF9, 0xFF0C, 0x4ED6, 0x4EBA, 0x65E0, 0x7F6A, 0x3002,
     0x7B2C, 0x4E8C, 0x5E55, 0xFF1A, 0x7236, 0x4EB2, 0x65E0, 0x6CD5, 0x63A5, 0x53D7, 0x5973,
     0x513F, 0x6B7B, 0x4EA1, 0x771F, 0x76F8, 0xFF0C, 0x6740, 0x5BB3, 0x4E86, 0x88AB, 0x5224,
     0x65E0, 0x7F6A, 0x7684, 0x4EBA, 0xFF0C, 0x4F46, 0x6CD5, 0x533B, 0x53D1, 0x73B0, 0x6B64,
     0x4EBA, 0x6240, 0x53D7, 0x66B4, 0x529B, 0x4F24, 0x5BB3, 0x4E0E, 0x7236, 0x4EB2, 0x884C,
     0x4E3A, 0x4E0D, 0x7B26, 0xFF08, 0x6216, 0x7236, 0x4EB2, 0x4F2A, 0x9020, 0x8BC1, 0x636E,
     0xFF09, 0xFF0C, 0x771F, 0x76F8, 0x662F, 0x5973, 0x513F, 0x6B7B, 0x4E8E, 0x610F, 0x5916,
     0xFF0C, 0x7236, 0x4EB2, 0x4E3A, 0x62A5, 0x590D, 0x8BEF, 0x6740, 0x4ED6, 0x4EBA, 0xFF0C,
     0x6545, 0x7236, 0x4EB2, 0x4E5F, 0x79F0, 0x81EA, 0x5DF1, 0x22, 0x65E0, 0x7F6A, 0x22, 0xFF0C,
     0x4F46, 0x6CD5, 0x5F8B, 0x4E0A, 0x4ECD, 0x6709, 0x7F6A, 0x3002, 0xA]"

text \<open>Answer-generation prompt up to the question; 5 code points.\<close>
definition prompt_answer_1 :: pystr where
  "prompt_answer_1 = [0xA, 0x9898, 0x76EE, 0x3A, 0x20]"

text \<open>Answer-generation prompt tail, lines 322-340; 804 code points.\<close>
definition prompt_answer_2 :: pystr where
  "prompt_answer_2 =
    [0xA, 0x4F60, 0x662F, 0x4E00, 0x4E2A, 0x4E13, 0x4E1A, 0x7684, 0x6D77, 0x9F9F, 0x6C64, 0x6545,
     0x4E8B, 0x4E13, 0x5BB6, 0x3002, 0x8BF7, 0x751F, 0x6210, 0x5BF9, 0x5E94, 0x7684, 0x5408,
     0x7406, 0x7684, 0x7B54, 0x6848, 0xFF0C, 0x53EF, 0x4EE5, 0x8574, 0x542B, 0x6050, 0x6016,
     0x5143, 0x7D20, 0xFF08, 0x6BD4, 0x5982, 0x6740, 0x4EBA, 0x4E4B, 0x7C7B, 0x7684, 0xFF09,
     0xFF0C, 0x8BB2, 0x7A76, 0x903B, 0x8F91, 0x548C, 0x4E00, 0x4E9B, 0x73B0, 0x5B9E, 0xFF0C,
     0x4E0D, 0x8981, 0x89E3, 0x91CA, 0x3002, 0x31, 0x35, 0x30, 0x5B57, 0x4EE5, 0x5185, 0x3002,
     0xA, 0xA, 0x53EF, 0x4EE5, 0x53C2, 0x8003, 0x7684, 0x6D77, 0x9F9F, 0x6C64, 0x6C64, 0x9762,
     0x61, 0x6E, 0x64, 0x6C64, 0x5E95, 0xFF08, 0x4EC5, 0x4F9B, 0x53C2, 0x8003, 0xFF0C, 0x53EF,
     0x4EE5, 0x5957, 0x6A21, 0x7248, 0x6216, 0x8005, 0x76F4, 0x63A5, 0x642C, 0xFF0C, 0x4F46,
     0x662F, 0x4E25, 0x683C, 0x6309, 0x7167, 0x8F93, 0x51FA, 0x683C, 0x5F0F, 0xFF0C, 0x4EC5,
     0x8F93, 0x51FA, 0x6C64, 0x5E95, 0xFF09, 0xFF1A, 0xA, 0x31, 0x2E, 0x3010, 0x5B50, 0x7684,
     0x7231, 0x3011, 0xA, 0x6C64, 0x9762, 0xFF1A, 0x6211, 0x7684, 0x7236, 0x6BCD, 0x90FD, 0x4E0D,
     0x7406, 0x6211, 0xFF0C, 0x4F46, 0x6211, 0x8FD8, 0x662F, 0x5F88, 0x7231, 0x4ED6, 0x4EEC,
     0x3002, 0xA, 0x6C64, 0x5E95, 0xFF1A, 0x5C0F, 0x65F6, 0x5019, 0x6211, 0x662F, 0x4E2A, 0x5F88,
     0x542C, 0x8BDD, 0x7684, 0x5B69, 0x5B50, 0xFF0C, 0x7238, 0x7238, 0x5988, 0x5988, 0x7ECF,
     0x5E38, 0x7ED9, 0x6211, 0x597D, 0x5403, 0x7684, 0x6C34, 0x679C, 0xFF0C, 0x6211, 0x5403,
     0x4E0D, 0x5B8C, 0x3002, 0x4ED6, 0x4EEC, 0x5C31, 0x544A, 0x8BC9, 0x6211, 0x559C, 0x6B22,
     0x7684, 0x4E1C, 0x897F, 0x4E00, 0x5B9A, 0x8981, 0x653E, 0x8FDB, 0x51B0, 0x7BB1, 0xFF0C,
     0x8FD9, 0x6837, 0x53EF, 0x4EE5, 0x4FDD, 0x9C9C, 0xFF0C, 0x8BB0, 0x5F97, 0x90A3, 0x65F6,
     0x5019, 0x4ED6, 0x4EEC, 0x5DE5, 0x4F5C, 0x53EF, 0x8F9B, 0x82E6, 0x4E86, 0xFF0C, 0x7ECF,
     0x5E38, 0x52A0, 0x73ED, 0x5230, 0x6DF1, 0x591C, 0x3002, 0x6CA1, 0x7761, 0x8FC7, 0x4E00,
     0x4E2A, 0x597D, 0x89C9, 0x3002, 0x4E8E, 0x662F, 0x6211, 0x800D, 0x4E86, 0x4E2A, 0x5C0F,
     0x806A, 0x660E, 0xFF0C, 0x5728, 0x4ED6, 0x4EEC, 0x7684, 0x6C34, 0x91CC, 0x4E0B, 0x4E86,
     0x5B89, 0x7720, 0x836F, 0x3002, 0x4ED6, 0x4EEC, 0x7761, 0x5F97, 0x53EF, 0x9999, 0x4E86,
     0xFF0C, 0x7136, 0x540E, 0x6211, 0x628A, 0x4ED6, 0x4EEC, 0x653E, 0x8FDB, 0x51B0, 0x7BB1,
     0x91CC, 0xFF0C, 0x4ECE, 0x90A3, 0x4EE5, 0x540E, 0x6211, 0x6BCF, 0x5929, 0x90FD, 0x4F1A,
     0x5BF9, 0x4ED6, 0x4EEC, 0x8BF4, 0xFF1A, 0x7238, 0x7238, 0x5988, 0x5988, 0x6211, 0x7231,
     0x4F60, 0x4EEC, 0x3002, 0x73B0, 0x5728, 0x6211, 0x90FD, 0x516D, 0x5341, 0x4E86, 0xFF0C,
     0x4ED6, 0x4EEC, 0x8FD8, 0x662F, 0x90A3, 0x4E48, 0x5E74, 0x8F7B, 0x3002, 0xA, 0xA, 0x32,
     0x2E, 0x3010, 0x821E, 0x3011, 0xA, 0x6C64, 0x9762, 0xFF1A, 0x6211, 0x516D, 0x5C81, 0x90A3,
     0x5E74, 0xFF0C, 0x5916, 0x516C, 0x53BB, 0x4E16, 0xFF0C, 0x6211, 0x548C, 0x4EB2, 0x4EBA,
     0x4E00, 0x8D77, 0x53BB, 0x796D, 0x5960, 0xFF0C, 0x548C, 0x59D0, 0x59D0, 0x73A9, 0x6349,
     0x8FF7, 0x85CF, 0xFF0C, 0x7136, 0x540E, 0x6211, 0x5BF9, 0x6BCD, 0x4EB2, 0x8BF4, 0x4E86,
     0x53E5, 0x8BDD, 0x628A, 0x5979, 0x5413, 0x660F, 0x4E86, 0x8FC7, 0x53BB, 0x3002, 0xA, 0x6C64,
     0x5E95, 0xFF1A, 0x6211, 0x53BB, 0x53C2, 0x52A0, 0x5916, 0x516C, 0x7684, 0x846C, 0x793C,
     0xFF0C, 0x540C, 0x884C, 0x7684, 0x8FD8, 0x6709, 0x6BD4, 0x6211, 0x5927, 0x4E24, 0x5C81,
     0x7684, 0x59D0, 0x59D0, 0xFF0C, 0x6211, 0x548C, 0x5979, 0x5B8C, 0x6349, 0x8FF7, 0x85CF,
     0x6211, 0x6CA1, 0x6709, 0x627E, 0x5230, 0x5979, 0x6CA1, 0x60F3, 0x5230, 0x5979, 0x8EB2,
     0x5728, 0x4E86, 0x7EB8, 0x505A, 0x7684, 0x623F, 0x5B50, 0x91CC, 0xFF0C, 0x5F53, 0x7EB8,
     0x623F, 0x5B50, 0x88AB, 0x70B9, 0x71C3, 0xFF0C, 0x6211, 0x770B, 0x89C1, 0x59D0, 0x59D0,
     0x5728, 0x8DF3, 0x821E, 0xFF0C, 0x6211, 0x5BF9, 0x5988, 0x8BF4, 0xFF0C, 0x5988, 0x59D0,
     0x59D0, 0x5728, 0x90A3, 0x623F, 0x5B50, 0x91CC, 0x9762, 0x8DF3, 0x821E, 0xFF0C, 0x56E0,
     0x4E3A, 0x59D0, 0x59D0, 0x88AB, 0x70E7, 0x6B7B, 0x4E86, 0xFF0C, 0x6211, 0x4E00, 0x76F4,
     0x8BB0, 0x5F97, 0x8FD9, 0x4E2A, 0x4E8B, 0x3002, 0xA, 0xA, 0x33, 0x2E, 0x3010, 0x63D2,
     0x8FDB, 0x6765, 0x3011, 0xA, 0x6C64, 0x9762, 0xFF1A, 0x4ED6, 0x8FC5, 0x901F, 0x7684, 0x63D2,
     0x8FDB, 0x6765, 0xFF0C, 0x53C8, 0x8FC5, 0x901F, 0x7684, 0x62D4, 0x51FA, 0x53BB, 0x3002,
     0x53CD, 0x53CD, 0x590D, 0x590D, 0xFF0C, 0x6211, 0x6D41, 0x8840, 0x4E86, 0x3002, 0x4ED6,
     0x6EE1, 0x5934, 0x5927, 0x6C57, 0xFF0C, 0x9732, 0x51FA, 0x4E86, 0x7B11, 0x5BB9, 0x3002,
     0x22, 0x554A, 0xFF0C, 0x597D, 0x8212, 0x670D, 0x22, 0xA, 0x6C64, 0x5E95, 0xFF1A, 0x4ED6,
     0x662F, 0x5B9E, 0x4E60, 0x62A4, 0x58EB, 0xFF0C, 0x5728, 0x7ED9, 0x6211, 0x6253, 0x9488,
     0xFF0C, 0x9488, 0x5934, 0x6253, 0x8FDB, 0x8840, 0x7BA1, 0x91CC, 0x9762, 0x4F1A, 0x56DE,
     0x8840, 0xFF0C, 0x56E0, 0x6B64, 0x8BF4, 0x660E, 0x6210, 0x529F, 0x4E86, 0x3002, 0x6D41,
     0x6C57, 0x662F, 0x56E0, 0x4E3A, 0x53CD, 0x53CD, 0x590D, 0x590D, 0x4E86, 0x597D, 0x51E0,
     0x6B21, 0xFF0C, 0x8BA9, 0x4EBA, 0x7D27, 0x5F20, 0x3002, 0xA, 0xA, 0x34, 0x2E, 0x3010,
     0x65E0, 0x7F6A, 0x3011, 0xA, 0x6C64, 0x9762, 0xFF1A, 0x22, 0x5979, 0x662F, 0x81EA, 0x613F,
     0x7684, 0xFF01, 0x22, 0x5C38, 0x4F53, 0x65E0, 0x66B4, 0x529B, 0x75D5, 0x8FF9, 0xFF0C,
     0x51F6, 0x624B, 0x88AB, 0x5224, 0x65E0, 0x7F6A, 0x3002, 0x22, 0x6211, 0x662F, 0x65E0,
     0x7F6A, 0x7684, 0xFF01, 0x22, 0x5C38, 0x4F53, 0x6709, 0x66B4, 0x529B, 0x75D5, 0x8FF9,
     0xFF0C, 0x51F6, 0x624B, 0x4E5F, 0x88AB, 0x5224, 0x65E0, 0x7F6A, 0x3002, 0xA, 0x6C64, 0x5E95,
     0xFF1A, 0x7B2C, 0x4E00, 0x5E55, 0xFF1A, 0x5973, 0x513F, 0x4E3A, 0x6551, 0x4ED6, 0x4EBA,
     0xFF08, 0x5982, 0x5668, 0x5B98, 0x79FB, 0x690D, 0xFF09, 0x81EA, 0x613F, 0x727A, 0x7272,
     0xFF0C, 0x6240, 0x4EE5, 0x22, 0x81EA, 0x613F, 0x22, 0x4E14, 0x65E0, 0x66B4, 0x529B, 0x75D5,
     0x8FF9, 0xFF0C, 0x4ED6, 0x4EBA, 0x65E0, 0x7F6A, 0x3002, 0x7B2C, 0x4E8C, 0x5E55, 0xFF1A,
     0x7236, 0x4EB2, 0x65E0, 0x6CD5, 0x63A5, 0x53D7, 0x5973, 0x513F, 0x6B7B, 0x4EA1, 0x771F,
     0x76F8, 0xFF0C, 0x6740, 0x5BB3, 0x4E86, 0x88AB, 0x5224, 0x65E0, 0x7F6A, 0x7684, 0x4EBA,
     0xFF0C, 0x4F46, 0x6CD5, 0x533B, 0x53D1, 0x73B0, 0x6B64, 0x4EBA, 0x6240, 0x53D7, 0x66B4,
     0x529B, 0x4F24, 0x5BB3, 0x4E0E, 0x7236, 0x4EB2, 0x884C, 0x4E3A, 0x4E0D, 0x7B26, 0xFF08,
     0x6216, 0x7236, 0x4EB2, 0x4F2A, 0x9020, 0x8BC1, 0x636E, 0xFF09, 0xFF0C, 0x771F, 0x76F8,
     0x662F, 0x5973, 0x513F, 0x6B7B, 0x4E8E, 0x610F, 0x5916, 0xFF0C, 0x7236, 0x4EB2, 0x4E3A,
     0x62A5, 0x590D, 0x8BEF, 0x6740, 0x4ED6, 0x4EBA, 0xFF0C, 0x6545, 0x7236, 0x4EB2, 0x4E5F,
     0x79F0, 0x81EA, 0x5DF1, 0x22, 0x65E0, 0x7F6A, 0x22, 0xFF0C, 0x4F46, 0x6CD5, 0x5F8B, 0x4E0A,
     0x4ECD, 0x6709, 0x7F6A, 0x3002, 0xA]"

text \<open>Reply head "turtle soup puzzle:"; 9 code points.\<close>
definition start_reply_1 :: pystr where
  "start_reply_1 = [0x1F914, 0x20, 0x6D77, 0x9F9F, 0x6C64, 0x9898, 0x76EE, 0x3A, 0xA]"

text \<open>Reply tail: "hints used: 0/3" and the usage line; 64 code points.\<close>
definition start_reply_2 :: pystr where
  "start_reply_2 =
    [0xA, 0x1F4A1, 0x20, 0x63D0, 0x793A, 0x6B21, 0x6570, 0x3A, 0x20, 0x30, 0x2F, 0x33, 0xA,
     0x1F4A1, 0x20, 0x4F7F, 0x7528, 0x20, 0x2F, 0x68, 0x67, 0x74, 0x20, 0x95EE, 0x9898, 0x20,
     0x3C, 0x95EE, 0x9898, 0x3E, 0x20, 0x63D0, 0x95EE, 0xFF0C, 0x2F, 0x68, 0x67, 0x74, 0x20,
     0x63D0, 0x793A, 0x20, 0x83B7, 0x53D6, 0x63D0, 0x793A, 0xFF0C, 0x2F, 0x68, 0x67, 0x74, 0x20,
     0x731C, 0x8C1C, 0x20, 0x3C, 0x7B54, 0x6848, 0x3E, 0x20, 0x731C, 0x6D4B, 0x6C64, 0x5E95]"

text \<open>Reason: new puzzle generated; 7 code points.\<close>
definition reason_started :: pystr where
  "reason_started = [0x65B0, 0x9898, 0x76EE, 0x751F, 0x6210, 0x5B8C, 0x6210]"

subsection \<open>Strings of _call_llm_api (lines 346-360)\<close>

text \<open>Value of the Content-Type header; 16 code points.\<close>
definition content_type_json :: pystr where
  "content_type_json =
    [0x61, 0x70, 0x70, 0x6C, 0x69, 0x63, 0x61, 0x74, 0x69, 0x6F, 0x6E, 0x2F, 0x6A, 0x73, 0x6F,
     0x6E]"

text \<open>Head of the Authorization header; 7 code points.\<close>
definition bearer_prefix :: pystr where
  "bearer_prefix = [0x42, 0x65, 0x61, 0x72, 0x65, 0x72, 0x20]"

text \<open>Role of the first message; 6 code points.\<close>
definition role_system :: pystr where
  "role_system = [0x73, 0x79, 0x73, 0x74, 0x65, 0x6D]"

text \<open>Content of the system message; 19 code points.\<close>
definition system_content :: pystr where
  "system_content =
    [0x4F60, 0x662F, 0x4E00, 0x4E2A, 0x4E13, 0x4E1A, 0x6D77, 0x9F9F, 0x6C64, 0x6545, 0x4E8B,
     0x751F, 0x6210, 0x5668, 0x548C, 0x89E3, 0x91CA, 0x8005, 0x3002]"

text \<open>Role of the second message; 4 code points.\<close>
definition role_user :: pystr where
  "role_user = [0x75, 0x73, 0x65, 0x72]"

text \<open>JSON key; 7 code points.\<close>
definition key_choices :: pystr where
  "key_choices = [0x63, 0x68, 0x6F, 0x69, 0x63, 0x65, 0x73]"

text \<open>JSON key; 7 code points.\<close>
definition key_message :: pystr where
  "key_message = [0x6D, 0x65, 0x73, 0x73, 0x61, 0x67, 0x65]"

text \<open>JSON key; 7 code points.\<close>
definition key_content :: pystr where
  "key_content = [0x63, 0x6F, 0x6E, 0x74, 0x65, 0x6E, 0x74]"

text \<open>What an f-string prints for None; 4 code points.\<close>
definition py_none :: pystr where
  "py_none = [0x4E, 0x6F, 0x6E, 0x65]"
text \<open>How an f-string prints what \<open>state.get(key)\<close> returns for a string field: the
  string, or \<open>None\<close> when the key is missing.\<close>

definition fmt_opt :: "pystr option \<Rightarrow> pystr" where
  "fmt_opt v = (case v of None \<Rightarrow> py_none | Some s \<Rightarrow> s)"

section \<open>Data model\<close>

text \<open>
  An entry of \<open>guess_history\<close>. \<open>_handle_question\<close> appends the dict
  \<open>{"type": "question", "content": question}\<close> (line 191), \<open>_handle_guess\<close> appends
  the guess itself, a \<open>str\<close> (line 261).
\<close>

datatype hist_item = QuestionItem pystr | GuessItem pystr

text \<open>
  A session: one value of the global dict \<open>game_states\<close> (line 17). It is a Python dict, so
  a key can be missing: \<open>execute\<close> stores the empty dict for a new group (lines 142-144).
  Each field is \<open>None\<close> when its key is missing.
\<close>

record game_state =
  current_question :: "pystr option"
  current_answer :: "pystr option"
  hints_used :: "int option"
  game_active :: "bool option"
  guess_history :: "hist_item list option"
  game_over :: "bool option"

definition empty_state :: game_state where
  "empty_state = \<lparr>current_question = None, current_answer = None, hints_used = None,
     game_active = None, guess_history = None, game_over = None\<rparr>"

text \<open>The global \<open>game_states\<close>, keyed by group (or user) id.\<close>

type_synonym store = "pystr \<rightharpoonup> game_state"

text \<open>The exceptions (all subclasses of \<open>Exception\<close>) that the modelled code can raise.\<close>

datatype exn = TypeError | AttributeError | IndexError | KeyError | ClientError | JSONError

text \<open>What \<open>resp.json()\<close> returns: Python's value of a JSON text. An object is the list of
  its key and value pairs, looked up with \<open>map_of\<close>.\<close>

datatype json =
    JNull
  | JBool bool
  | JNumber real
  | JString pystr
  | JArray "json list"
  | JObject "(pystr \<times> json) list"

text \<open>
  What one HTTP POST does: the session or the request raises (connection error, timeout),
  or a response arrives with a status and a body; the body is \<open>None\<close> when
  \<open>resp.json()\<close> raises on it (not JSON, or not served as JSON).
\<close>

datatype http_outcome = PostRaises | Response int "json option"

text \<open>The request of \<open>_call_llm_api\<close>: URL, headers, JSON payload (lines 347-348) and the
  client timeout (line 350).\<close>

record llm_request =
  req_url :: pystr
  req_content_type :: pystr
  req_authorization :: pystr
  req_model :: pystr
  req_messages :: "(pystr \<times> pystr) list"
  req_temperature :: real
  req_max_tokens :: int
  req_stream :: bool
  req_timeout_total :: int

text \<open>The collaborator: the outcome of each request. The Unicode lower-casing of
  \<open>str.lower()\<close> is a table of the Python runtime, not of this repository; it is a
  parameter of the model too.\<close>

record env =
  http_post :: "llm_request \<Rightarrow> http_outcome"
  str_lower :: "pystr \<Rightarrow> pystr"

text \<open>The values \<open>get_config\<close> returns (lines 120-128).\<close>

record config =
  plugin_enabled :: bool
  llm_api_url :: pystr
  llm_api_key :: pystr
  llm_model :: pystr
  llm_temperature :: real

text \<open>The chat context of a message: the stream id, the group id when the message comes
  from a group, the user id when the user is known.\<close>

record chat_stream =
  cs_stream_id :: "pystr option"
  cs_group_id :: "pystr option"
  cs_user_id :: "pystr option"

text \<open>How a handler ends: it returns its triple \<open>(success, reason, intercept)\<close>, or an
  exception leaves it.\<close>

datatype outcome = Return bool pystr bool | Raise exn

text \<open>Everything a handler does: the store it leaves, the texts it sent with
  \<open>send_text\<close>, the requests it made to the collaborator (both in order), and its end.\<close>

record effects =
  store_after :: store
  sent_texts :: "pystr list"
  llm_calls :: "llm_request list"
  ended :: outcome

section \<open>The collaborator call\<close>

text \<open>\<open>d.get(key, default)\<close> on a value: only a dict has \<open>get\<close>.\<close>

definition py_get :: "json \<Rightarrow> pystr \<Rightarrow> json \<Rightarrow> exn + json" where
  "py_get v key dflt =
     (case v of
        JObject d \<Rightarrow> (case map_of d key of None \<Rightarrow> Inr dflt | Some x \<Rightarrow> Inr x)
      | _ \<Rightarrow> Inl AttributeError)"

text \<open>\<open>v[0]\<close> on a value: the first element of a list or string, \<open>IndexError\<close> when it is
  empty, \<open>KeyError\<close> on a dict (its keys are strings), \<open>TypeError\<close> otherwise.\<close>

definition py_index0 :: "json \<Rightarrow> exn + json" where
  "py_index0 v =
     (case v of
        JArray xs \<Rightarrow> (case xs of [] \<Rightarrow> Inl IndexError | x # _ \<Rightarrow> Inr x)
      | JString s \<Rightarrow> (case s of [] \<Rightarrow> Inl IndexError | c # _ \<Rightarrow> Inr (JString [c]))
      | JObject d \<Rightarrow> Inl KeyError
      | _ \<Rightarrow> Inl TypeError)"

text \<open>\<open>v.strip()\<close> on a value: only a string has \<open>strip\<close>.\<close>

definition py_strip_value :: "json \<Rightarrow> exn + pystr" where
  "py_strip_value v = (case v of JString s \<Rightarrow> Inr (py_strip s) | _ \<Rightarrow> Inl AttributeError)"

definition and_then :: "exn + 'a \<Rightarrow> ('a \<Rightarrow> exn + 'b) \<Rightarrow> exn + 'b" where
  "and_then r f = (case r of Inl e \<Rightarrow> Inl e | Inr x \<Rightarrow> f x)"

text \<open>Line 355:
  \<open>data.get("choices",[{}])[0].get("message",{}).get("content","").strip()\<close>.\<close>

definition extract_content :: "json \<Rightarrow> exn + pystr" where
  "extract_content data =
     and_then (py_get data key_choices (JArray [JObject []])) (\<lambda>choices.
     and_then (py_index0 choices) (\<lambda>choice.
     and_then (py_get choice key_message (JObject [])) (\<lambda>message.
     and_then (py_get message key_content (JString [])) py_strip_value)))"

text \<open>The body of the \<open>try\<close> (lines 350-357).\<close>

definition try_post :: "http_outcome \<Rightarrow> exn + pystr" where
  "try_post r =
     (case r of
        PostRaises \<Rightarrow> Inl ClientError
      | Response status body \<Rightarrow>
          if status = 200
          then (case body of None \<Rightarrow> Inl JSONError | Some data \<Rightarrow> extract_content data)
          else Inr [])"

definition build_request :: "pystr \<Rightarrow> pystr \<Rightarrow> pystr \<Rightarrow> pystr \<Rightarrow> real \<Rightarrow> llm_request" where
  "build_request prompt api_url api_key model temperature =
     \<lparr>req_url = api_url,
      req_content_type = content_type_json,
      req_authorization = bearer_prefix @ api_key,
      req_model = model,
      req_messages = [(role_system, system_content), (role_user, prompt)],
      req_temperature = temperature,
      req_max_tokens = 500,
      req_stream = False,
      req_timeout_total = 30\<rparr>"

text \<open>
  \<open>_call_llm_api\<close> (lines 346-360): one POST; \<open>except Exception\<close> turns every exception of
  the \<open>try\<close> into the empty string. The result is the text and the requests made.
\<close>

definition call_llm_api ::
  "env \<Rightarrow> pystr \<Rightarrow> pystr \<Rightarrow> pystr \<Rightarrow> pystr \<Rightarrow> real \<Rightarrow> pystr \<times> llm_request list" where
  "call_llm_api e prompt api_url api_key model temperature =
     (let req = build_request prompt api_url api_key model temperature
      in ((case try_post (http_post e req) of Inl ex \<Rightarrow> [] | Inr s \<Rightarrow> s), [req]))"

section \<open>The game handlers\<close>

text \<open>\<open>state.get("hints_used", 0)\<close>.\<close>

definition get_hints_used :: "game_state \<Rightarrow> int" where
  "get_hints_used state = (case hints_used state of None \<Rightarrow> 0 | Some h \<Rightarrow> h)"

text \<open>\<open>state.get("guess_history", [])\<close>, also the list that
  \<open>state.setdefault("guess_history", [])\<close> appends to.\<close>

definition get_history :: "game_state \<Rightarrow> hist_item list" where
  "get_history state = (case guess_history state of None \<Rightarrow> [] | Some h \<Rightarrow> h)"

text \<open>The dict a new game stores (line 342) and the dict an exit stores (line 275).\<close>

definition new_game_state :: "pystr \<Rightarrow> pystr \<Rightarrow> game_state" where
  "new_game_state question answer =
     \<lparr>current_question = Some question, current_answer = Some answer, hints_used = Some 0,
      game_active = Some True, guess_history = Some [], game_over = Some False\<rparr>"

definition exit_state :: game_state where
  "exit_state =
     \<lparr>current_question = Some [], current_answer = Some [], hints_used = Some 0,
      game_active = Some False, guess_history = Some [], game_over = Some False\<rparr>"

text \<open>The prompts: the f-strings of lines 193-199, 214-219, 232-239, 253-259 and
  320-340, over the session's fields and the user's text.\<close>

definition question_prompt :: "game_state \<Rightarrow> pystr \<Rightarrow> pystr" where
  "question_prompt state question =
     question_prompt_1 @ fmt_opt (current_question state) @ question_prompt_2
     @ fmt_opt (current_answer state) @ question_prompt_3 @ question @ question_prompt_4"

definition hint_prompt :: "game_state \<Rightarrow> pystr" where
  "hint_prompt state =
     hint_prompt_1 @ fmt_opt (current_question state) @ hint_prompt_2
     @ fmt_opt (current_answer state) @ hint_prompt_3"

definition clues_prompt :: "game_state \<Rightarrow> pystr \<Rightarrow> pystr" where
  "clues_prompt state history_text =
     clues_prompt_1 @ fmt_opt (current_question state) @ clues_prompt_2
     @ fmt_opt (current_answer state) @ clues_prompt_3 @ history_text @ clues_prompt_4"

definition guess_prompt :: "game_state \<Rightarrow> pystr \<Rightarrow> pystr" where
  "guess_prompt state guess =
     guess_prompt_1 @ fmt_opt (current_question state) @ guess_prompt_2
     @ fmt_opt (current_answer state) @ guess_prompt_3 @ guess @ guess_prompt_4"

definition prompt_answer :: "pystr \<Rightarrow> pystr" where
  "prompt_answer question = prompt_answer_1 @ question @ prompt_answer_2"

text \<open>A handler that sends one text and returns without calling the collaborator or
  touching the store.\<close>

definition reply_only :: "store \<Rightarrow> pystr \<Rightarrow> bool \<Rightarrow> pystr \<Rightarrow> effects" where
  "reply_only gs text ok reason =
     \<lparr>store_after = gs, sent_texts = [text], llm_calls = [], ended = Return ok reason True\<rparr>"

text \<open>A handler left by an exception before it sent or stored anything.\<close>

definition raises :: "store \<Rightarrow> exn \<Rightarrow> effects" where
  "raises gs ex = \<lparr>store_after = gs, sent_texts = [], llm_calls = [], ended = Raise ex\<rparr>"

text \<open>\<open>_start_new_game\<close> (lines 279-344). The parameter \<open>stream_id\<close> is not used.\<close>

definition start_new_game ::
  "env \<Rightarrow> store \<Rightarrow> pystr \<Rightarrow> pystr \<Rightarrow> pystr \<Rightarrow> pystr \<Rightarrow> real \<Rightarrow> pystr option \<Rightarrow> effects" where
  "start_new_game e gs group_id api_url api_key model temperature stream_id =
     (let state = (case gs group_id of None \<Rightarrow> empty_state | Some s \<Rightarrow> s) in
      if truthy (game_active state) \<and> \<not> truthy (game_over state)
      then reply_only gs msg_already_running False reason_already_running
      else
        let (r1, c1) = call_llm_api e prompt_question api_url api_key model temperature;
            question = py_strip r1;
            (r2, c2) = call_llm_api e (prompt_answer question) api_url api_key model temperature;
            answer = py_strip r2
        in \<lparr>store_after = gs(group_id \<mapsto> new_game_state question answer),
            sent_texts = [start_reply_1 @ question @ start_reply_2],
            llm_calls = c1 @ c2,
            ended = Return True reason_started True\<rparr>)"

text \<open>The two texts a start stores: \<open>question\<close> of line 318, the stripped output of the
  call with the puzzle prompt, and \<open>answer\<close> of line 341, the stripped output of the call
  with the answer prompt over that question.\<close>

definition generated_question :: "env \<Rightarrow> pystr \<Rightarrow> pystr \<Rightarrow> pystr \<Rightarrow> real \<Rightarrow> pystr" where
  "generated_question e api_url api_key model temperature =
     py_strip (fst (call_llm_api e prompt_question api_url api_key model temperature))"

definition generated_answer :: "env \<Rightarrow> pystr \<Rightarrow> pystr \<Rightarrow> pystr \<Rightarrow> real \<Rightarrow> pystr" where
  "generated_answer e api_url api_key model temperature =
     py_strip (fst (call_llm_api e
       (prompt_answer (generated_question e api_url api_key model temperature))
       api_url api_key model temperature))"

text \<open>\<open>_handle_question\<close> (lines 186-203). \<open>game_states.get(group_id)\<close> is \<open>None\<close> for
  an unknown group, and \<open>None.get\<close> raises; \<open>execute\<close> never calls a handler so.\<close>

definition handle_question ::
  "env \<Rightarrow> store \<Rightarrow> pystr \<Rightarrow> pystr \<Rightarrow> pystr \<Rightarrow> pystr \<Rightarrow> pystr \<Rightarrow> real \<Rightarrow> effects" where
  "handle_question e gs group_id question api_url api_key model temperature =
     (case gs group_id of
        None \<Rightarrow> raises gs AttributeError
      | Some state \<Rightarrow>
          if \<not> truthy (game_active state)
          then start_new_game e gs group_id api_url api_key model temperature None
          else
            let state1 = state\<lparr>guess_history := Some (get_history state @ [QuestionItem question])\<rparr>;
                (llm_response, c) = call_llm_api e (question_prompt state1 question)
                  api_url api_key model temperature;
                reply = (if py_strip llm_response = [] then msg_no_llm_answer
                         else py_strip llm_response)
            in \<lparr>store_after = gs(group_id \<mapsto> state1),
                sent_texts = [ask_reply_1 @ question @ ask_reply_2 @ reply],
                llm_calls = c,
                ended = Return True reason_question_done True\<rparr>)"

text \<open>\<open>_handle_hint\<close> (lines 205-224).\<close>

definition handle_hint ::
  "env \<Rightarrow> store \<Rightarrow> pystr \<Rightarrow> pystr \<Rightarrow> pystr \<Rightarrow> pystr \<Rightarrow> real \<Rightarrow> effects" where
  "handle_hint e gs group_id api_url api_key model temperature =
     (case gs group_id of
        None \<Rightarrow> raises gs AttributeError
      | Some state \<Rightarrow>
          if \<not> truthy (game_active state)
          then reply_only gs msg_no_game False reason_no_game
          else if get_hints_used state \<ge> 3
          then reply_only gs msg_hints_exhausted False reason_hints_exhausted
          else
            let (hint, c) = call_llm_api e (hint_prompt state) api_url api_key model temperature;
                state1 = state\<lparr>hints_used := Some (get_hints_used state + 1)\<rparr>
            in \<lparr>store_after = gs(group_id \<mapsto> state1),
                sent_texts = [hint_reply_1 @ py_str_int (get_hints_used state1) @ hint_reply_2
                  @ py_strip hint],
                llm_calls = c,
                ended = Return True reason_hint_done True\<rparr>)"

text \<open>\<open>item["content"]\<close> (line 231): the content of a question's dict; indexing a
  \<open>str\<close> with a \<open>str\<close> raises \<open>TypeError\<close>.\<close>

fun item_content :: "hist_item \<Rightarrow> exn + pystr" where
  "item_content (QuestionItem q) = Inr q"
| "item_content (GuessItem g) = Inl TypeError"

fun contents :: "hist_item list \<Rightarrow> exn + pystr list" where
  "contents [] = Inr []"
| "contents (x # xs) =
     and_then (item_content x) (\<lambda>c. and_then (contents xs) (\<lambda>cs. Inr (c # cs)))"

text \<open>\<open>_handle_clues\<close> (lines 226-242).\<close>

definition handle_clues ::
  "env \<Rightarrow> store \<Rightarrow> pystr \<Rightarrow> pystr \<Rightarrow> pystr \<Rightarrow> pystr \<Rightarrow> real \<Rightarrow> effects" where
  "handle_clues e gs group_id api_url api_key model temperature =
     (case gs group_id of
        None \<Rightarrow> raises gs AttributeError
      | Some state \<Rightarrow>
          if \<not> truthy (game_active state)
          then reply_only gs msg_no_game False reason_no_game
          else
            (case contents (get_history state) of
               Inl ex \<Rightarrow> raises gs ex
             | Inr cs \<Rightarrow>
                 let history_text = py_join newline cs;
                     (clues, c) = call_llm_api e (clues_prompt state history_text)
                       api_url api_key model temperature
                 in \<lparr>store_after = gs,
                     sent_texts = [clues_reply_head @ py_strip clues],
                     llm_calls = c,
                     ended = Return True reason_clues_done True\<rparr>))"

text \<open>\<open>_handle_guess\<close> (lines 244-272).\<close>

definition handle_guess ::
  "env \<Rightarrow> store \<Rightarrow> pystr \<Rightarrow> pystr \<Rightarrow> pystr \<Rightarrow> pystr \<Rightarrow> pystr \<Rightarrow> real \<Rightarrow> effects" where
  "handle_guess e gs group_id guess api_url api_key model temperature =
     (case gs group_id of
        None \<Rightarrow> raises gs AttributeError
      | Some state \<Rightarrow>
          if \<not> truthy (game_active state)
          then reply_only gs msg_no_game False reason_no_game
          else if truthy (game_over state)
          then reply_only gs msg_game_ended False reason_game_ended
          else
            let (r, c) = call_llm_api e (guess_prompt state guess) api_url api_key model temperature;
                llm_response = str_lower e (py_strip r);
                state1 = state\<lparr>guess_history := Some (get_history state @ [GuessItem guess])\<rparr>
            in if llm_response = token_yes
               then
                 let state2 = state1\<lparr>game_over := Some True\<rparr>
                 in \<lparr>store_after = gs(group_id \<mapsto> state2),
                     sent_texts = [win_reply_head @ fmt_opt (current_answer state2)],
                     llm_calls = c,
                     ended = Return True reason_guess_done True\<rparr>
               else if llm_response = token_no
               then \<lparr>store_after = gs(group_id \<mapsto> state1),
                     sent_texts = [wrong_reply_1 @ py_str_int (get_hints_used state1)
                       @ wrong_reply_2],
                     llm_calls = c,
                     ended = Return True reason_guess_done True\<rparr>
               else \<lparr>store_after = gs(group_id \<mapsto> state1),
                     sent_texts = [msg_unrelated],
                     llm_calls = c,
                     ended = Return True reason_guess_done True\<rparr>)"

text \<open>\<open>_handle_exit\<close> (lines 274-277).\<close>

definition handle_exit :: "store \<Rightarrow> pystr \<Rightarrow> effects" where
  "handle_exit gs group_id =
     \<lparr>store_after = gs(group_id \<mapsto> exit_state),
      sent_texts = [msg_exited],
      llm_calls = [],
      ended = Return True reason_exit True\<rparr>"

section \<open>The command\<close>

text \<open>\<open>str(matched_groups.get(name) or "").strip()\<close> (lines 110-111).\<close>

definition group_text :: "pystr option \<Rightarrow> pystr" where
  "group_text g = py_strip (case g of None \<Rightarrow> [] | Some s \<Rightarrow> s)"

text \<open>Lines 135-139: the group's id, else the user's id, else \<open>"unknown"\<close>.\<close>

definition session_key :: "chat_stream \<Rightarrow> pystr" where
  "session_key cs =
     (case cs_group_id cs of
        Some g \<Rightarrow> g
      | None \<Rightarrow> (case cs_user_id cs of Some u \<Rightarrow> u | None \<Rightarrow> unknown_id))"

text \<open>
  \<open>execute\<close> (lines 108-183). Its inputs are the collaborator, the configuration, the chat
  context (\<open>None\<close> when it cannot be found), the groups \<open>action\<close> and \<open>rest\<close> of the
  match, and the store.
\<close>

definition execute ::
  "env \<Rightarrow> config \<Rightarrow> chat_stream option \<Rightarrow> pystr option \<times> pystr option \<Rightarrow> store \<Rightarrow> effects" where
  "execute e cfg chat matched_groups gs =
     (let action = group_text (fst matched_groups);
          rest_input = group_text (snd matched_groups)
      in case chat of
        None \<Rightarrow> reply_only gs msg_no_chat_stream False reason_no_chat_stream
      | Some cs \<Rightarrow>
          if \<not> plugin_enabled cfg
          then reply_only gs msg_disabled False reason_disabled
          else
            let api_url = llm_api_url cfg;
                api_key = llm_api_key cfg;
                model = llm_model cfg;
                temperature = llm_temperature cfg
            in if api_url = [] \<or> api_key = []
               then reply_only gs msg_config_incomplete False reason_config
               else
                 let group_id = session_key cs;
                     game_state = (case gs group_id of None \<Rightarrow> empty_state | Some s \<Rightarrow> s);
                     gs1 = gs(group_id \<mapsto> game_state)
                 in if action = kw_question \<and> rest_input \<noteq> []
                    then handle_question e gs1 group_id rest_input api_url api_key model temperature
                    else if action = kw_hint
                    then handle_hint e gs1 group_id api_url api_key model temperature
                    else if action = kw_clues
                    then handle_clues e gs1 group_id api_url api_key model temperature
                    else if action = kw_show
                    then
                      if \<not> truthy (game_active game_state)
                      then reply_only gs1 msg_no_game False reason_no_game
                      else reply_only gs1
                        (show_reply_head @ fmt_opt (current_question game_state)) True reason_show
                    else if action = kw_guess \<and> rest_input \<noteq> []
                    then handle_guess e gs1 group_id rest_input api_url api_key model temperature
                    else if action = kw_reveal
                    then
                      if \<not> truthy (game_active game_state)
                      then reply_only gs1 msg_no_game_reveal False reason_no_game
                      else
                        let answer = (case current_answer game_state of
                                        None \<Rightarrow> default_answer | Some a \<Rightarrow> a)
                        in \<lparr>store_after = gs1(group_id \<mapsto>
                              game_state\<lparr>game_active := Some False, game_over := Some True\<rparr>),
                            sent_texts = [reveal_reply_head @ answer @ reveal_reply_tail],
                            llm_calls = [],
                            ended = Return True reason_revealed True\<rparr>
                    else if action = kw_exit
                    then handle_exit gs1 group_id
                    else if action = kw_help
                    then reply_only gs1 command_help True reason_help
                    else start_new_game e gs1 group_id api_url api_key model temperature
                      (cs_stream_id cs))"

section \<open>The command pattern\<close>

text \<open>
  \<open>command_pattern\<close> (line 81) is the regular expression: start of text, the prefix, then a
  group that is not optional (one or more whitespace characters and one of eight keywords,
  the group \<open>action\<close>), then an optional group (one or more whitespace characters and one or
  more characters other than a newline, the group \<open>rest\<close>), then the end of the text (or
  the newline that ends it). The matcher below computes the groups of that pattern as
  Python's backtracking matcher finds them (longest whitespace first), or \<open>None\<close> when
  the text does not match.
\<close>

definition action_keywords :: "pystr list" where
  "action_keywords = [kw_hint, kw_question, kw_clues, kw_guess, kw_exit, kw_help, kw_reveal, kw_show]"

text \<open>The text after the keyword against the optional group and the end anchor: the
  value of \<open>rest\<close> (\<open>None\<close> when the group took no part), or no match.\<close>

definition match_tail :: "pystr \<Rightarrow> pystr option option" where
  "match_tail tail =
     (let body = (if tail \<noteq> [] \<and> last tail = 0xA then butlast tail else tail);
          ws = takeWhile is_space body;
          rem = dropWhile is_space body
      in if rem \<noteq> []
         then (if ws \<noteq> [] \<and> 0xA \<notin> set rem then Some (Some rem) else None)
         else if 2 \<le> length body \<and> last body \<noteq> 0xA
         then Some (Some [last body])
         else if tail = [] \<or> tail = [0xA]
         then Some None
         else None)"

definition match_command :: "pystr \<Rightarrow> (pystr option \<times> pystr option) option" where
  "match_command msg =
     (if take (length cmd_prefix) msg = cmd_prefix
      then
        let after = drop (length cmd_prefix) msg;
            ws = takeWhile is_space after;
            rem = dropWhile is_space after
        in if ws = [] then None
           else (case find (\<lambda>k. take (length k) rem = k) action_keywords of
                   None \<Rightarrow> None
                 | Some k \<Rightarrow>
                     (case match_tail (drop (length k) rem) of
                        None \<Rightarrow> None
                      | Some rest \<Rightarrow> Some (Some k, rest)))
      else None)"

section \<open>Sequences of commands\<close>

text \<open>One command as the plugin receives it: its configuration, chat context and matched
  groups, and what the collaborator answers while it runs.\<close>

record command =
  cmd_config :: config
  cmd_chat :: "chat_stream option"
  cmd_groups :: "pystr option \<times> pystr option"
  cmd_http :: "llm_request \<Rightarrow> http_outcome"

definition step :: "(pystr \<Rightarrow> pystr) \<Rightarrow> command \<Rightarrow> store \<Rightarrow> store" where
  "step lower c gs =
     store_after (execute \<lparr>http_post = cmd_http c, str_lower = lower\<rparr>
       (cmd_config c) (cmd_chat c) (cmd_groups c) gs)"

fun run :: "(pystr \<Rightarrow> pystr) \<Rightarrow> command list \<Rightarrow> store \<Rightarrow> store" where
  "run lower [] gs = gs"
| "run lower (c # cs) gs = run lower cs (step lower c gs)"

section \<open>Example inputs\<close>

text \<open>Concrete inputs on which the theorems below are evaluated: a complete configuration,
  a group chat, a collaborator with one fixed outcome for every request (in particular
  status 200 and a well-formed body carrying a given text), and a lower-casing that is Python's on the characters used
  here (it maps the letters A to Z and leaves every other code point alone).\<close>

definition demo_config :: config where
  "demo_config =
     \<lparr>plugin_enabled = True, llm_api_url = [0x75], llm_api_key = [0x6B], llm_model = [0x6D],
      llm_temperature = 0.7\<rparr>"

definition demo_group :: pystr where
  "demo_group = [0x67, 0x31]"

definition demo_chat :: chat_stream where
  "demo_chat = \<lparr>cs_stream_id = Some [0x73], cs_group_id = Some demo_group, cs_user_id = None\<rparr>"

definition ascii_lower :: "pystr \<Rightarrow> pystr" where
  "ascii_lower s = map (\<lambda>c. if 0x41 \<le> c \<and> c \<le> 0x5A then c + 0x20 else c) s"

definition body_with :: "pystr \<Rightarrow> json" where
  "body_with txt =
     JObject [(key_choices, JArray [JObject [(key_message, JObject [(key_content, JString txt)])]])]"

definition responding :: "http_outcome \<Rightarrow> env" where
  "responding r = \<lparr>http_post = (\<lambda>req. r), str_lower = ascii_lower\<rparr>"

definition answering :: "pystr \<Rightarrow> env" where
  "answering txt = responding (Response 200 (Some (body_with txt)))"

text \<open>A command of the example group, with its keyword, the text after it, and the text
  the collaborator answers.\<close>

definition demo_command :: "pystr \<Rightarrow> pystr option \<Rightarrow> pystr \<Rightarrow> command" where
  "demo_command keyword rest txt =
     \<lparr>cmd_config = demo_config, cmd_chat = Some demo_chat, cmd_groups = (Some keyword, rest),
      cmd_http = http_post (answering txt)\<rparr>"

text \<open>A command of the example group sent while the collaborator is down: every POST
  raises.\<close>

definition outage_command :: "pystr \<Rightarrow> pystr option \<Rightarrow> command" where
  "outage_command keyword rest =
     \<lparr>cmd_config = demo_config, cmd_chat = Some demo_chat, cmd_groups = (Some keyword, rest),
      cmd_http = (\<lambda>req. PostRaises)\<rparr>"

text \<open>A session in progress: question \<open>Q\<close>, answer \<open>A\<close>, a given number of hints used.\<close>

definition demo_state :: "int \<Rightarrow> game_state" where
  "demo_state h = (new_game_state [0x51] [0x41])\<lparr>hints_used := Some h\<rparr>"

definition demo_store :: "int \<Rightarrow> store" where
  "demo_store h = Map.empty(demo_group \<mapsto> demo_state h)"

section \<open>Shared facts\<close>

lemmas kw_defs = kw_hint_def kw_question_def kw_clues_def kw_guess_def kw_exit_def kw_help_def
  kw_reveal_def kw_show_def

lemma py_strip_Nil: "py_strip [] = []"
  by (simp add: py_strip_def)

lemma sublist_mid: "sublist b (a @ b @ c)"
  unfolding sublist_def by blast

lemma sublist_end: "sublist b (a @ b)"
  unfolding sublist_def by (metis append_Nil2)

text \<open>What the example collaborator gives.\<close>

lemma call_answering:
  "call_llm_api (answering txt) p u k m t = (py_strip txt, [build_request p u k m t])"
  by (simp add: call_llm_api_def answering_def responding_def try_post_def extract_content_def
      and_then_def py_get_def py_index0_def py_strip_value_def body_with_def Let_def)

lemma str_lower_answering: "str_lower (answering txt) = ascii_lower"
  by (simp add: answering_def responding_def)

lemma py_strip_token_yes: "py_strip token_yes = token_yes"
  by (simp add: py_strip_def token_yes_def is_space_def)

lemma py_strip_token_no: "py_strip token_no = token_no"
  by (simp add: py_strip_def token_no_def is_space_def)

lemma demo_store_in_progress:
  "demo_store h demo_group = Some (demo_state h)"
  "truthy (game_active (demo_state h))"
  "\<not> truthy (game_over (demo_state h))"
  by (simp_all add: demo_store_def demo_state_def new_game_state_def truthy_def)

lemma demo_config_ok:
  "plugin_enabled demo_config" "llm_api_url demo_config \<noteq> []" "llm_api_key demo_config \<noteq> []"
  by (simp_all add: demo_config_def)

section \<open>The collaborator fails open\<close>

text \<open>
  Claim C7. For every prompt, \<open>_call_llm_api\<close> returns the empty string, and no exception
  reaches its caller, whenever the POST raises, the status is not 200, or the body is
  malformed: not JSON, no \<open>choices\<close>, no \<open>message\<close>, no \<open>content\<close>, or anything else on
  which the extraction of line 355 raises. The call makes exactly one request (no retry),
  with a total timeout of 30 seconds.
\<close>

theorem collaborator_fails_open:
  fixes e p u k m t
  defines "req \<equiv> build_request p u k m t"
  defines "out \<equiv> fst (call_llm_api e p u k m t)"
  shows "(http_post e req = PostRaises \<longrightarrow> out = [])
     \<and> (\<forall>status body. http_post e req = Response status body \<and> status \<noteq> 200 \<longrightarrow> out = [])
     \<and> (http_post e req = Response 200 None \<longrightarrow> out = [])
     \<and> (\<forall>d. http_post e req = Response 200 (Some (JObject d)) \<and> map_of d key_choices = None
           \<longrightarrow> out = [])
     \<and> (\<forall>d c cs. http_post e req = Response 200 (Some (JObject d))
           \<and> map_of d key_choices = Some (JArray (JObject c # cs)) \<and> map_of c key_message = None
           \<longrightarrow> out = [])
     \<and> (\<forall>d c cs ms. http_post e req = Response 200 (Some (JObject d))
           \<and> map_of d key_choices = Some (JArray (JObject c # cs))
           \<and> map_of c key_message = Some (JObject ms) \<and> map_of ms key_content = None
           \<longrightarrow> out = [])
     \<and> (\<forall>ex. try_post (http_post e req) = Inl ex \<longrightarrow> out = [])
     \<and> snd (call_llm_api e p u k m t) = [req]
     \<and> req_timeout_total req = 30"
  unfolding req_def out_def
  by (simp add: call_llm_api_def try_post_def extract_content_def and_then_def py_get_def
      py_index0_def py_strip_value_def py_strip_Nil build_request_def Let_def)

theorem collaborator_fails_open_witness:
  "fst (call_llm_api (responding PostRaises) [0x70] [0x75] [0x6B] [0x6D] 0.7) = []
   \<and> fst (call_llm_api (responding (Response 500 (Some (body_with [0x68, 0x69]))))
         [0x70] [0x75] [0x6B] [0x6D] 0.7) = []
   \<and> fst (call_llm_api (responding (Response 200 None)) [0x70] [0x75] [0x6B] [0x6D] 0.7) = []
   \<and> fst (call_llm_api (responding (Response 200 (Some (JObject [])))) [0x70] [0x75] [0x6B] [0x6D] 0.7) = []
   \<and> fst (call_llm_api (responding (Response 200 (Some (JObject [(key_choices, JArray [JObject []])]))))
         [0x70] [0x75] [0x6B] [0x6D] 0.7) = []
   \<and> fst (call_llm_api (responding (Response 200 (Some
         (JObject [(key_choices, JArray [JObject [(key_message, JObject [])]])]))))
         [0x70] [0x75] [0x6B] [0x6D] 0.7) = []
   \<and> fst (call_llm_api (responding (Response 200 (Some (JArray [])))) [0x70] [0x75] [0x6B] [0x6D] 0.7) = []
   \<and> snd (call_llm_api (responding PostRaises) [0x70] [0x75] [0x6B] [0x6D] 0.7)
       = [build_request [0x70] [0x75] [0x6B] [0x6D] 0.7]
   \<and> req_timeout_total (build_request [0x70] [0x75] [0x6B] [0x6D] 0.7) = 30"
proof -
  have 1: "fst (call_llm_api (responding PostRaises) [0x70] [0x75] [0x6B] [0x6D] 0.7) = []"
    using collaborator_fails_open [of "responding PostRaises" "[0x70]" "[0x75]" "[0x6B]" "[0x6D]" "0.7"]
    by (simp add: responding_def)
  have 2: "fst (call_llm_api (responding (Response 500 (Some (body_with [0x68, 0x69]))))
         [0x70] [0x75] [0x6B] [0x6D] 0.7) = []"
    using collaborator_fails_open [of "responding (Response 500 (Some (body_with [0x68, 0x69])))"
        "[0x70]" "[0x75]" "[0x6B]" "[0x6D]" "0.7"]
    by (simp add: responding_def)
  have 3: "fst (call_llm_api (responding (Response 200 None)) [0x70] [0x75] [0x6B] [0x6D] 0.7) = []"
    using collaborator_fails_open [of "responding (Response 200 None)"
        "[0x70]" "[0x75]" "[0x6B]" "[0x6D]" "0.7"]
    by (simp add: responding_def)
  have 4: "fst (call_llm_api (responding (Response 200 (Some (JObject []))))
         [0x70] [0x75] [0x6B] [0x6D] 0.7) = []"
    using collaborator_fails_open [of "responding (Response 200 (Some (JObject [])))"
        "[0x70]" "[0x75]" "[0x6B]" "[0x6D]" "0.7"]
    by (simp add: responding_def)
  have 5: "fst (call_llm_api (responding (Response 200 (Some (JObject [(key_choices, JArray [JObject []])]))))
         [0x70] [0x75] [0x6B] [0x6D] 0.7) = []"
    using collaborator_fails_open [of
        "responding (Response 200 (Some (JObject [(key_choices, JArray [JObject []])])))"
        "[0x70]" "[0x75]" "[0x6B]" "[0x6D]" "0.7"]
    by (simp add: responding_def)
  have 6: "fst (call_llm_api (responding (Response 200 (Some
         (JObject [(key_choices, JArray [JObject [(key_message, JObject [])]])]))))
         [0x70] [0x75] [0x6B] [0x6D] 0.7) = []"
    using collaborator_fails_open [of
        "responding (Response 200 (Some
           (JObject [(key_choices, JArray [JObject [(key_message, JObject [])]])])))"
        "[0x70]" "[0x75]" "[0x6B]" "[0x6D]" "0.7"]
    by (simp add: responding_def)
  have "try_post (Response 200 (Some (JArray []))) = Inl AttributeError"
    by (simp add: try_post_def extract_content_def and_then_def py_get_def)
  then have 7: "fst (call_llm_api (responding (Response 200 (Some (JArray []))))
         [0x70] [0x75] [0x6B] [0x6D] 0.7) = []"
    using collaborator_fails_open [of "responding (Response 200 (Some (JArray [])))"
        "[0x70]" "[0x75]" "[0x6B]" "[0x6D]" "0.7"]
    by (simp add: responding_def)
  have 8: "snd (call_llm_api (responding PostRaises) [0x70] [0x75] [0x6B] [0x6D] 0.7)
       = [build_request [0x70] [0x75] [0x6B] [0x6D] 0.7]
     \<and> req_timeout_total (build_request [0x70] [0x75] [0x6B] [0x6D] 0.7) = 30"
    using collaborator_fails_open [of "responding PostRaises" "[0x70]" "[0x75]" "[0x6B]" "[0x6D]" "0.7"]
    by simp
  from 1 2 3 4 5 6 7 8 show ?thesis by simp
qed

section \<open>Starting a game while one is in progress\<close>

text \<open>
  Claim C8. For every session in progress (\<open>game_active\<close> true, \<open>game_over\<close> not true),
  an attempt to start a new game leaves the whole store as it was, so the session's
  question, answer and every other field, sends only the rejection, and makes no
  collaborator call. This holds of \<open>_start_new_game\<close> itself and of the command that
  reaches it (the keyword "question" with no text after it).
\<close>

theorem start_rejected_in_progress:
  assumes "gs g = Some st" and "truthy (game_active st)" and "\<not> truthy (game_over st)"
  shows "start_new_game e gs g api_url api_key model temperature sid =
           \<lparr>store_after = gs, sent_texts = [msg_already_running], llm_calls = [],
            ended = Return False reason_already_running True\<rparr>
       \<and> (session_key cs = g \<and> plugin_enabled cfg \<and> llm_api_url cfg \<noteq> []
            \<and> llm_api_key cfg \<noteq> [] \<and> group_text (fst mg) = kw_question
            \<and> group_text (snd mg) = []
          \<longrightarrow> execute e cfg (Some cs) mg gs =
           \<lparr>store_after = gs, sent_texts = [msg_already_running], llm_calls = [],
            ended = Return False reason_already_running True\<rparr>)"
  using assms
  by (simp add: execute_def Let_def kw_defs start_new_game_def reply_only_def map_upd_triv)

theorem start_rejected_in_progress_witness:
  "demo_store 1 demo_group = Some (demo_state 1)
   \<and> truthy (game_active (demo_state 1)) \<and> \<not> truthy (game_over (demo_state 1))
   \<and> start_new_game (answering [0x78]) (demo_store 1) demo_group [0x75] [0x6B] [0x6D] 0.7 None =
        \<lparr>store_after = demo_store 1, sent_texts = [msg_already_running], llm_calls = [],
         ended = Return False reason_already_running True\<rparr>
   \<and> execute (answering [0x78]) demo_config (Some demo_chat) (Some kw_question, None) (demo_store 1) =
        \<lparr>store_after = demo_store 1, sent_texts = [msg_already_running], llm_calls = [],
         ended = Return False reason_already_running True\<rparr>"
proof -
  have a: "demo_store 1 demo_group = Some (demo_state 1)"
    by (simp add: demo_store_def)
  have b: "truthy (game_active (demo_state 1))" and c: "\<not> truthy (game_over (demo_state 1))"
    by (simp_all add: demo_state_def new_game_state_def truthy_def)
  have d: "session_key demo_chat = demo_group \<and> plugin_enabled demo_config
      \<and> llm_api_url demo_config \<noteq> [] \<and> llm_api_key demo_config \<noteq> []
      \<and> group_text (fst (Some kw_question, None :: pystr option)) = kw_question
      \<and> group_text (snd (Some kw_question, None :: pystr option)) = []"
    by (simp add: session_key_def demo_chat_def demo_config_def group_text_def py_strip_def
        kw_question_def is_space_def)
  from start_rejected_in_progress [where gs = "demo_store 1" and g = demo_group
      and st = "demo_state 1" and e = "answering [0x78]" and api_url = "[0x75]"
      and api_key = "[0x6B]" and model = "[0x6D]" and temperature = "0.7" and sid = None
      and cs = demo_chat and cfg = demo_config and mg = "(Some kw_question, None)"] a b c d
  show ?thesis by simp
qed

section \<open>Exit\<close>

text \<open>
  Claim C9. Whatever the store held before, after \<open>_handle_exit\<close> the session's stored
  state has \<open>game_active\<close> false, \<open>game_over\<close> false, \<open>hints_used\<close> 0, an empty history
  and empty question and answer; so it is after the exit command, which reaches the
  handler once the configuration checks of \<open>execute\<close> have passed.
\<close>

theorem exit_resets_fully:
  assumes "plugin_enabled cfg" and "llm_api_url cfg \<noteq> []" and "llm_api_key cfg \<noteq> []"
    and "group_text (fst mg) = kw_exit"
  shows "store_after (handle_exit gs0 g) g =
           Some \<lparr>current_question = Some [], current_answer = Some [], hints_used = Some 0,
                 game_active = Some False, guess_history = Some [], game_over = Some False\<rparr>
       \<and> store_after (execute e cfg (Some cs) mg gs) (session_key cs) =
           Some \<lparr>current_question = Some [], current_answer = Some [], hints_used = Some 0,
                 game_active = Some False, guess_history = Some [], game_over = Some False\<rparr>"
  using assms by (simp add: execute_def handle_exit_def exit_state_def Let_def kw_defs)

theorem exit_resets_fully_witness:
  "plugin_enabled demo_config \<and> llm_api_url demo_config \<noteq> [] \<and> llm_api_key demo_config \<noteq> []
   \<and> group_text (fst (Some kw_exit, None :: pystr option)) = kw_exit
   \<and> store_after (handle_exit (demo_store 2) demo_group) demo_group =
           Some \<lparr>current_question = Some [], current_answer = Some [], hints_used = Some 0,
                 game_active = Some False, guess_history = Some [], game_over = Some False\<rparr>
   \<and> store_after (execute (answering [0x78]) demo_config (Some demo_chat) (Some kw_exit, None)
         (demo_store 2)) (session_key demo_chat) =
           Some \<lparr>current_question = Some [], current_answer = Some [], hints_used = Some 0,
                 game_active = Some False, guess_history = Some [], game_over = Some False\<rparr>"
proof -
  have a: "plugin_enabled demo_config" and b: "llm_api_url demo_config \<noteq> []"
    and c: "llm_api_key demo_config \<noteq> []"
    by (simp_all add: demo_config_def)
  have d: "group_text (fst (Some kw_exit, None :: pystr option)) = kw_exit"
    by (simp add: group_text_def py_strip_def kw_exit_def is_space_def)
  from exit_resets_fully [OF a b c d, of "demo_store 2" demo_group "answering [0x78]" demo_chat
      "demo_store 2"] a b c d
  show ?thesis by simp
qed

section \<open>Guesses\<close>

text \<open>
  Claim C2. For every guess submitted while a game is in progress, \<open>_handle_guess\<close>
  compares the collaborator's output, stripped and lower-cased, with two literals. Exactly
  the token "yes" (U+662F) selects the win branch, whose reply ends with the hidden answer;
  exactly the token "no" (U+4E0D U+662F) selects the incorrect branch, whose reply contains
  the current \<open>hints_used\<close> count; every other output, the empty string included, selects
  the "unrelated" branch. In the last two branches the stored session differs only by the
  guess appended to its history, so \<open>game_active\<close> and \<open>game_over\<close> are as before. In every
  branch the command ends with success.
\<close>

theorem guess_classification:
  fixes e gs g guess u k m t st
  defines "out \<equiv> str_lower e (py_strip (fst (call_llm_api e (guess_prompt st guess) u k m t)))"
  defines "eff \<equiv> handle_guess e gs g guess u k m t"
  defines "st1 \<equiv> st\<lparr>guess_history := Some (get_history st @ [GuessItem guess])\<rparr>"
  assumes "gs g = Some st" and "truthy (game_active st)" and "\<not> truthy (game_over st)"
  shows "(out = token_yes \<longrightarrow>
            sent_texts eff = [win_reply_head @ fmt_opt (current_answer st)]
          \<and> sublist (fmt_opt (current_answer st)) (hd (sent_texts eff))
          \<and> store_after eff = gs(g \<mapsto> st1\<lparr>game_over := Some True\<rparr>))
       \<and> (out = token_no \<longrightarrow>
            sent_texts eff = [wrong_reply_1 @ py_str_int (get_hints_used st) @ wrong_reply_2]
          \<and> sublist (py_str_int (get_hints_used st)) (hd (sent_texts eff))
          \<and> store_after eff = gs(g \<mapsto> st1))
       \<and> (out \<noteq> token_yes \<and> out \<noteq> token_no \<longrightarrow>
            sent_texts eff = [msg_unrelated] \<and> store_after eff = gs(g \<mapsto> st1))
       \<and> game_active st1 = game_active st \<and> game_over st1 = game_over st
       \<and> ended eff = Return True reason_guess_done True"
proof -
  have ne: "token_yes \<noteq> token_no"
    by (simp add: token_yes_def token_no_def)
  show ?thesis
    using assms(4-6) ne unfolding out_def eff_def st1_def
    by (simp add: handle_guess_def Let_def split_beta get_hints_used_def sublist_mid sublist_end)
qed

theorem guess_classification_witness:
  "demo_store 1 demo_group = Some (demo_state 1)
   \<and> truthy (game_active (demo_state 1)) \<and> \<not> truthy (game_over (demo_state 1))
   \<and> sent_texts (handle_guess (answering token_yes) (demo_store 1) demo_group [0x78]
        [0x75] [0x6B] [0x6D] 0.7) = [win_reply_head @ [0x41]]
   \<and> sent_texts (handle_guess (answering token_no) (demo_store 1) demo_group [0x78]
        [0x75] [0x6B] [0x6D] 0.7) = [wrong_reply_1 @ [0x31] @ wrong_reply_2]
   \<and> sent_texts (handle_guess (answering []) (demo_store 1) demo_group [0x78]
        [0x75] [0x6B] [0x6D] 0.7) = [msg_unrelated]
   \<and> sent_texts (handle_guess (answering [0x4D, 0x61, 0x79, 0x62, 0x65]) (demo_store 1) demo_group
        [0x78] [0x75] [0x6B] [0x6D] 0.7) = [msg_unrelated]"
proof -
  note hyps = demo_store_in_progress [of 1]
  have y: "str_lower (answering token_yes) (py_strip (fst (call_llm_api (answering token_yes)
      (guess_prompt (demo_state 1) [0x78]) [0x75] [0x6B] [0x6D] 0.7))) = token_yes"
    by (simp add: call_answering str_lower_answering py_strip_token_yes)
      (simp add: ascii_lower_def token_yes_def)
  have n: "str_lower (answering token_no) (py_strip (fst (call_llm_api (answering token_no)
      (guess_prompt (demo_state 1) [0x78]) [0x75] [0x6B] [0x6D] 0.7))) = token_no"
    by (simp add: call_answering str_lower_answering py_strip_token_no)
      (simp add: ascii_lower_def token_no_def)
  have o1: "str_lower (answering []) (py_strip (fst (call_llm_api (answering [])
      (guess_prompt (demo_state 1) [0x78]) [0x75] [0x6B] [0x6D] 0.7))) = []"
    by (simp add: call_answering str_lower_answering py_strip_Nil ascii_lower_def)
  have o2: "str_lower (answering [0x4D, 0x61, 0x79, 0x62, 0x65])
      (py_strip (fst (call_llm_api (answering [0x4D, 0x61, 0x79, 0x62, 0x65])
      (guess_prompt (demo_state 1) [0x78]) [0x75] [0x6B] [0x6D] 0.7)))
      = [0x6D, 0x61, 0x79, 0x62, 0x65]"
    by (simp add: call_answering str_lower_answering)
      (simp add: ascii_lower_def py_strip_def is_space_def)
  have vals: "fmt_opt (current_answer (demo_state 1)) = [0x41]"
    "py_str_int (get_hints_used (demo_state 1)) = [0x31]"
    by (simp_all add: demo_state_def new_game_state_def fmt_opt_def get_hints_used_def
        py_str_int_def digits_nat.simps)
  have 1: "sent_texts (handle_guess (answering token_yes) (demo_store 1) demo_group [0x78]
        [0x75] [0x6B] [0x6D] 0.7) = [win_reply_head @ [0x41]]"
    using guess_classification [where gs = "demo_store 1" and g = demo_group and st = "demo_state 1"
        and e = "answering token_yes" and guess = "[0x78]"
        and u = "[0x75]" and k = "[0x6B]" and m = "[0x6D]" and t = "0.7", OF hyps] y vals
    by simp
  have 2: "sent_texts (handle_guess (answering token_no) (demo_store 1) demo_group [0x78]
        [0x75] [0x6B] [0x6D] 0.7) = [wrong_reply_1 @ [0x31] @ wrong_reply_2]"
    using guess_classification [where gs = "demo_store 1" and g = demo_group and st = "demo_state 1"
        and e = "answering token_no" and guess = "[0x78]"
        and u = "[0x75]" and k = "[0x6B]" and m = "[0x6D]" and t = "0.7", OF hyps] n vals
    by simp
  have 3: "sent_texts (handle_guess (answering []) (demo_store 1) demo_group [0x78]
        [0x75] [0x6B] [0x6D] 0.7) = [msg_unrelated]"
    using guess_classification [where gs = "demo_store 1" and g = demo_group and st = "demo_state 1"
        and e = "answering []" and guess = "[0x78]"
        and u = "[0x75]" and k = "[0x6B]" and m = "[0x6D]" and t = "0.7", OF hyps] o1
    by (simp add: token_yes_def token_no_def)
  have 4: "sent_texts (handle_guess (answering [0x4D, 0x61, 0x79, 0x62, 0x65]) (demo_store 1)
        demo_group [0x78] [0x75] [0x6B] [0x6D] 0.7) = [msg_unrelated]"
    using guess_classification [where gs = "demo_store 1" and g = demo_group and st = "demo_state 1"
        and e = "answering [0x4D, 0x61, 0x79, 0x62, 0x65]"
        and guess = "[0x78]" and u = "[0x75]" and k = "[0x6B]" and m = "[0x6D]" and t = "0.7", OF hyps] o2
    by (simp add: token_yes_def token_no_def)
  from hyps 1 2 3 4 show ?thesis by simp
qed

text \<open>
  Claim C3, as stated: after a guess classified as correct the stored session has
  \<open>game_active\<close> false and \<open>game_over\<close> true. It fails: lines 264-267 set \<open>game_over\<close>
  only. For the session in progress with question \<open>Q\<close> and answer \<open>A\<close>, the guess \<open>x\<close> and
  the collaborator answering "yes", the stored session afterwards has \<open>game_active\<close> true.
\<close>

theorem correct_guess_counterexample:
  "store_after (handle_guess (answering token_yes) (demo_store 1) demo_group [0x78]
      [0x75] [0x6B] [0x6D] 0.7) demo_group =
     Some \<lparr>current_question = Some [0x51], current_answer = Some [0x41], hints_used = Some 1,
           game_active = Some True, guess_history = Some [GuessItem [0x78]],
           game_over = Some True\<rparr>
   \<and> map_option game_active (store_after (handle_guess (answering token_yes) (demo_store 1)
        demo_group [0x78] [0x75] [0x6B] [0x6D] 0.7) demo_group) \<noteq> Some (Some False)"
proof -
  have "ascii_lower token_yes = token_yes"
    by (simp add: ascii_lower_def token_yes_def)
  then show ?thesis
    by (simp add: handle_guess_def demo_store_in_progress call_answering str_lower_answering
        py_strip_token_yes get_history_def)
      (simp add: demo_state_def new_game_state_def)
qed

text \<open>
  Claim C3, amended. For every session in progress, when a guess is classified as correct
  (the collaborator's output, stripped and lower-cased, is the token "yes"), the stored
  session afterwards has \<open>game_over\<close> true while \<open>game_active\<close> stays as it was, true; the
  guess is appended to the history and the other fields are unchanged.
\<close>

theorem correct_guess_sets_over:
  assumes "gs g = Some st" and "truthy (game_active st)" and "\<not> truthy (game_over st)"
    and "str_lower e (py_strip (fst (call_llm_api e (guess_prompt st guess) u k m t))) = token_yes"
  shows "\<exists>st'. store_after (handle_guess e gs g guess u k m t) g = Some st'
           \<and> game_over st' = Some True
           \<and> game_active st' = game_active st \<and> truthy (game_active st')
           \<and> guess_history st' = Some (get_history st @ [GuessItem guess])
           \<and> current_question st' = current_question st
           \<and> current_answer st' = current_answer st
           \<and> hints_used st' = hints_used st"
  using assms by (simp add: handle_guess_def Let_def split_beta)

theorem correct_guess_sets_over_witness:
  "demo_store 1 demo_group = Some (demo_state 1)
   \<and> truthy (game_active (demo_state 1)) \<and> \<not> truthy (game_over (demo_state 1))
   \<and> str_lower (answering token_yes) (py_strip (fst (call_llm_api (answering token_yes)
        (guess_prompt (demo_state 1) [0x78]) [0x75] [0x6B] [0x6D] 0.7))) = token_yes
   \<and> (\<exists>st'. store_after (handle_guess (answering token_yes) (demo_store 1) demo_group [0x78]
          [0x75] [0x6B] [0x6D] 0.7) demo_group = Some st'
        \<and> game_over st' = Some True \<and> game_active st' = Some True)"
proof -
  note hyps = demo_store_in_progress [of 1]
  have y: "str_lower (answering token_yes) (py_strip (fst (call_llm_api (answering token_yes)
      (guess_prompt (demo_state 1) [0x78]) [0x75] [0x6B] [0x6D] 0.7))) = token_yes"
    by (simp add: call_answering str_lower_answering py_strip_token_yes)
      (simp add: ascii_lower_def token_yes_def)
  have act: "game_active (demo_state 1) = Some True"
    by (simp add: demo_state_def new_game_state_def)
  from correct_guess_sets_over [where gs = "demo_store 1" and g = demo_group
      and st = "demo_state 1" and e = "answering token_yes" and guess = "[0x78]" and u = "[0x75]"
      and k = "[0x6B]" and m = "[0x6D]" and t = "0.7", OF hyps y] obtain st' where
    "store_after (handle_guess (answering token_yes) (demo_store 1) demo_group [0x78]
          [0x75] [0x6B] [0x6D] 0.7) demo_group = Some st'"
    "game_over st' = Some True" "game_active st' = game_active (demo_state 1)"
    by blast
  with hyps y act show ?thesis by simp
qed

section \<open>Dispatch\<close>

text \<open>
  Claim C10. For every command whose action is the keyword "question" or the keyword
  "guess" and whose text after it is missing or blank, \<open>execute\<close> (once its configuration
  checks have passed) neither calls the question or guess handler nor rejects the command:
  it is the default branch, \<open>_start_new_game\<close> on the group's session. That attempt is
  rejected when the session is in progress, and starts a game otherwise.
\<close>

theorem keyword_without_text_starts_game:
  assumes "plugin_enabled cfg" and "llm_api_url cfg \<noteq> []" and "llm_api_key cfg \<noteq> []"
    and "group_text (fst mg) = kw_question \<or> group_text (fst mg) = kw_guess"
    and "group_text (snd mg) = []"
  shows "execute e cfg (Some cs) mg gs =
           start_new_game e
             (gs(session_key cs \<mapsto> (case gs (session_key cs) of None \<Rightarrow> empty_state | Some s \<Rightarrow> s)))
             (session_key cs) (llm_api_url cfg) (llm_api_key cfg) (llm_model cfg)
             (llm_temperature cfg) (cs_stream_id cs)
       \<and> (\<forall>st. gs (session_key cs) = Some st \<and> truthy (game_active st) \<and> \<not> truthy (game_over st)
            \<longrightarrow> execute e cfg (Some cs) mg gs =
                 reply_only gs msg_already_running False reason_already_running)
       \<and> ((\<forall>st. gs (session_key cs) = Some st \<longrightarrow> \<not> truthy (game_active st) \<or> truthy (game_over st))
            \<longrightarrow> ended (execute e cfg (Some cs) mg gs) = Return True reason_started True
              \<and> (\<exists>q a. store_after (execute e cfg (Some cs) mg gs) (session_key cs)
                    = Some (new_game_state q a)))"
proof -
  have 1: "execute e cfg (Some cs) mg gs =
           start_new_game e
             (gs(session_key cs \<mapsto> (case gs (session_key cs) of None \<Rightarrow> empty_state | Some s \<Rightarrow> s)))
             (session_key cs) (llm_api_url cfg) (llm_api_key cfg) (llm_model cfg)
             (llm_temperature cfg) (cs_stream_id cs)"
    using assms by (auto simp add: execute_def Let_def kw_defs)
  have 2: "execute e cfg (Some cs) mg gs =
      reply_only gs msg_already_running False reason_already_running"
    if "gs (session_key cs) = Some st" "truthy (game_active st)" "\<not> truthy (game_over st)" for st
    unfolding 1 using that by (simp add: start_new_game_def map_upd_triv)
  have 3: "ended (execute e cfg (Some cs) mg gs) = Return True reason_started True
      \<and> (\<exists>q a. store_after (execute e cfg (Some cs) mg gs) (session_key cs)
              = Some (new_game_state q a))"
    if "\<forall>st. gs (session_key cs) = Some st \<longrightarrow> \<not> truthy (game_active st) \<or> truthy (game_over st)"
    unfolding 1 using that
    by (cases "gs (session_key cs)")
      (auto simp add: start_new_game_def Let_def split_beta empty_state_def truthy_def)
  from 1 2 3 show ?thesis by blast
qed

theorem keyword_without_text_starts_game_witness:
  "plugin_enabled demo_config \<and> llm_api_url demo_config \<noteq> [] \<and> llm_api_key demo_config \<noteq> []
   \<and> group_text (fst (Some kw_guess, Some [0x20])) = kw_guess
   \<and> group_text (snd (Some kw_guess, Some [0x20])) = []
   \<and> execute (answering [0x51]) demo_config (Some demo_chat) (Some kw_guess, Some [0x20])
        (demo_store 1) = reply_only (demo_store 1) msg_already_running False reason_already_running
   \<and> ended (execute (answering [0x51]) demo_config (Some demo_chat) (Some kw_guess, Some [0x20])
        Map.empty) = Return True reason_started True
   \<and> (\<exists>q a. store_after (execute (answering [0x51]) demo_config (Some demo_chat)
        (Some kw_guess, Some [0x20]) Map.empty) (session_key demo_chat) = Some (new_game_state q a))"
proof -
  have a: "group_text (fst (Some kw_guess, Some [0x20])) = kw_question
      \<or> group_text (fst (Some kw_guess, Some [0x20])) = kw_guess"
    and a': "group_text (fst (Some kw_guess, Some [0x20])) = kw_guess"
    and b: "group_text (snd (Some kw_guess, Some [0x20])) = []"
    by (simp_all add: group_text_def py_strip_def kw_guess_def is_space_def)
  have key: "session_key demo_chat = demo_group"
    by (simp add: session_key_def demo_chat_def)
  note inst = keyword_without_text_starts_game [OF demo_config_ok a b,
      where e = "answering [0x51]" and cs = demo_chat]
  have 1: "execute (answering [0x51]) demo_config (Some demo_chat) (Some kw_guess, Some [0x20])
        (demo_store 1) = reply_only (demo_store 1) msg_already_running False reason_already_running"
    using inst [of "demo_store 1", unfolded key] demo_store_in_progress [of 1] by blast
  have none: "\<forall>st. (Map.empty :: store) (session_key demo_chat) = Some st \<longrightarrow>
      \<not> truthy (game_active st) \<or> truthy (game_over st)"
    by simp
  have 2: "ended (execute (answering [0x51]) demo_config (Some demo_chat) (Some kw_guess, Some [0x20])
        Map.empty) = Return True reason_started True
   \<and> (\<exists>q a. store_after (execute (answering [0x51]) demo_config (Some demo_chat)
        (Some kw_guess, Some [0x20]) Map.empty) (session_key demo_chat) = Some (new_game_state q a))"
    using inst [of Map.empty] none by blast
  from demo_config_ok a' b 1 2 show ?thesis by simp
qed

text \<open>
  Claim C5 says that a message with the command prefix and no recognised keyword falls
  through to the start of a new game. \<open>execute\<close> has that default branch: with no
  \<open>action\<close> group it starts a game. But the pattern of line 81 makes the keyword group
  mandatory (only the \<open>rest\<close> group carries the question mark), so the prefix alone, or
  the prefix with other text, does not match and never reaches \<open>execute\<close>.
\<close>

theorem prefix_alone_does_not_match:
  "match_command cmd_prefix = None
   \<and> match_command (cmd_prefix @ [0x20, 0x66, 0x6F, 0x6F]) = None
   \<and> ended (execute (answering [0x51]) demo_config (Some demo_chat) (None, None) Map.empty)
       = Return True reason_started True"
proof -
  have a: "match_command cmd_prefix = None"
    by (simp add: match_command_def cmd_prefix_def)
  have b: "match_command (cmd_prefix @ [0x20, 0x66, 0x6F, 0x6F]) = None"
    by (simp add: match_command_def cmd_prefix_def is_space_def action_keywords_def kw_defs)
  have c: "ended (execute (answering [0x51]) demo_config (Some demo_chat) (None, None) Map.empty)
       = Return True reason_started True"
    by (simp add: execute_def demo_config_def group_text_def py_strip_Nil kw_defs Let_def
        start_new_game_def empty_state_def truthy_def split_beta)
  from a b c show ?thesis by simp
qed

section \<open>Empty collaborator output\<close>




section \<open>How a command changes the store\<close>

text \<open>Each handler leaves the store as it was or rewrites the entry of its group; the
  lemmas below list the new entries, and \<open>execute_entry_cases\<close> collects them for a
  whole command.\<close>

lemma start_new_game_store:
  "store_after (start_new_game e gs g u k m t sid) = gs
   \<or> (store_after (start_new_game e gs g u k m t sid) =
         gs(g \<mapsto> new_game_state (generated_question e u k m t) (generated_answer e u k m t))
       \<and> ended (start_new_game e gs g u k m t sid) = Return True reason_started True)"
  by (simp add: start_new_game_def Let_def split_beta reply_only_def generated_question_def
      generated_answer_def)

lemma handle_question_store:
  "store_after (handle_question e gs g q u k m t) = gs
   \<or> (store_after (handle_question e gs g q u k m t) =
         gs(g \<mapsto> new_game_state (generated_question e u k m t) (generated_answer e u k m t))
       \<and> ended (handle_question e gs g q u k m t) = Return True reason_started True)
   \<or> (\<exists>st h. gs g = Some st \<and> truthy (game_active st)
         \<and> store_after (handle_question e gs g q u k m t) = gs(g \<mapsto> st\<lparr>guess_history := h\<rparr>))"
proof (cases "gs g")
  case None
  then show ?thesis by (simp add: handle_question_def raises_def)
next
  case (Some st)
  show ?thesis
  proof (cases "truthy (game_active st)")
    case True
    with Some show ?thesis
      by (simp add: handle_question_def Let_def split_beta) blast
  next
    case False
    with Some have "handle_question e gs g q u k m t = start_new_game e gs g u k m t None"
      by (simp add: handle_question_def)
    with start_new_game_store [of e gs g u k m t None] show ?thesis by auto
  qed
qed

lemma handle_hint_store:
  "store_after (handle_hint e gs g u k m t) = gs
   \<or> (\<exists>st. gs g = Some st \<and> truthy (game_active st) \<and> get_hints_used st < 3
         \<and> store_after (handle_hint e gs g u k m t) =
             gs(g \<mapsto> st\<lparr>hints_used := Some (get_hints_used st + 1)\<rparr>))"
  by (cases "gs g")
    (auto simp add: handle_hint_def Let_def split_beta reply_only_def raises_def)

lemma handle_clues_store:
  "store_after (handle_clues e gs g u k m t) = gs"
  by (cases "gs g")
    (auto simp add: handle_clues_def Let_def split_beta reply_only_def raises_def
      split: sum.splits)

lemma handle_guess_store:
  "store_after (handle_guess e gs g guess u k m t) = gs
   \<or> (\<exists>st h. gs g = Some st \<and> truthy (game_active st)
         \<and> (store_after (handle_guess e gs g guess u k m t) = gs(g \<mapsto> st\<lparr>guess_history := h\<rparr>)
            \<or> store_after (handle_guess e gs g guess u k m t) =
                gs(g \<mapsto> st\<lparr>guess_history := h, game_over := Some True\<rparr>)))"
  by (cases "gs g")
    (auto simp add: handle_guess_def Let_def split_beta reply_only_def raises_def)


lemma execute_store_form:
  "store_after (execute e cfg chat mg gs) = gs
   \<or> (\<exists>cs. chat = Some cs \<and>
        (let gid = session_key cs;
             old = (case gs gid of None \<Rightarrow> empty_state | Some s \<Rightarrow> s);
             gs1 = gs(gid \<mapsto> old);
             u = llm_api_url cfg; k = llm_api_key cfg; m = llm_model cfg; t = llm_temperature cfg;
             new = store_after (execute e cfg chat mg gs)
         in new = gs1
          \<or> (new = store_after (handle_question e gs1 gid (group_text (snd mg)) u k m t)
              \<and> ended (execute e cfg chat mg gs) =
                  ended (handle_question e gs1 gid (group_text (snd mg)) u k m t))
          \<or> new = store_after (handle_hint e gs1 gid u k m t)
          \<or> new = store_after (handle_clues e gs1 gid u k m t)
          \<or> new = store_after (handle_guess e gs1 gid (group_text (snd mg)) u k m t)
          \<or> (new = store_after (start_new_game e gs1 gid u k m t (cs_stream_id cs))
              \<and> ended (execute e cfg chat mg gs) =
                  ended (start_new_game e gs1 gid u k m t (cs_stream_id cs)))
          \<or> new = gs1(gid \<mapsto> exit_state)
          \<or> (truthy (game_active old)
              \<and> new = gs1(gid \<mapsto> old\<lparr>game_active := Some False, game_over := Some True\<rparr>))))"
  by (cases chat) (simp_all add: execute_def Let_def reply_only_def handle_exit_def)


lemma empty_state_inactive: "\<not> truthy (game_active empty_state)"
  by (simp add: empty_state_def truthy_def)

lemma execute_entry_cases:
  assumes entry: "store_after (execute e cfg chat mg gs) g = Some st'"
  shows "gs g = Some st' \<or> st' = empty_state \<or> st' = exit_state
       \<or> (st' = new_game_state
             (generated_question e (llm_api_url cfg) (llm_api_key cfg) (llm_model cfg)
                (llm_temperature cfg))
             (generated_answer e (llm_api_url cfg) (llm_api_key cfg) (llm_model cfg)
                (llm_temperature cfg))
           \<and> ended (execute e cfg chat mg gs) = Return True reason_started True)
       \<or> (\<exists>st. gs g = Some st \<and> truthy (game_active st) \<and>
            ((\<exists>h. st' = st\<lparr>guess_history := h\<rparr>)
             \<or> (\<exists>h. st' = st\<lparr>guess_history := h, game_over := Some True\<rparr>)
             \<or> (get_hints_used st < 3 \<and> st' = st\<lparr>hints_used := Some (get_hints_used st + 1)\<rparr>)
             \<or> st' = st\<lparr>game_active := Some False, game_over := Some True\<rparr>))"
proof -
  define new where "new = store_after (execute e cfg chat mg gs)"
  define u where "u = llm_api_url cfg"
  define k where "k = llm_api_key cfg"
  define m where "m = llm_model cfg"
  define t where "t = llm_temperature cfg"
  let ?fresh = "\<lambda>y. y = new_game_state (generated_question e u k m t) (generated_answer e u k m t)
      \<and> ended (execute e cfg chat mg gs) = Return True reason_started True"
  let ?moved = "\<lambda>st y. (\<exists>h. y = st\<lparr>guess_history := h\<rparr>)
      \<or> (\<exists>h. y = st\<lparr>guess_history := h, game_over := Some True\<rparr>)
      \<or> (get_hints_used st < 3 \<and> y = st\<lparr>hints_used := Some (get_hints_used st + 1)\<rparr>)
      \<or> y = st\<lparr>game_active := Some False, game_over := Some True\<rparr>"
  let ?goal = "gs g = Some st' \<or> st' = empty_state \<or> st' = exit_state \<or> ?fresh st'
      \<or> (\<exists>st. gs g = Some st \<and> truthy (game_active st) \<and> ?moved st st')"
  have entry': "new g = Some st'"
    using entry by (simp add: new_def)
  have ?goal
  proof (cases "new = gs")
    case True
    with entry' show ?thesis by simp
  next
    case False
    with execute_store_form [of e cfg chat mg gs] obtain cs where cs: "chat = Some cs"
      and disp0: "let gid = session_key cs;
             old = (case gs gid of None \<Rightarrow> empty_state | Some s \<Rightarrow> s);
             gs1 = gs(gid \<mapsto> old);
             u = llm_api_url cfg; k = llm_api_key cfg; m = llm_model cfg; t = llm_temperature cfg;
             new = store_after (execute e cfg chat mg gs)
         in new = gs1
          \<or> (new = store_after (handle_question e gs1 gid (group_text (snd mg)) u k m t)
              \<and> ended (execute e cfg chat mg gs) =
                  ended (handle_question e gs1 gid (group_text (snd mg)) u k m t))
          \<or> new = store_after (handle_hint e gs1 gid u k m t)
          \<or> new = store_after (handle_clues e gs1 gid u k m t)
          \<or> new = store_after (handle_guess e gs1 gid (group_text (snd mg)) u k m t)
          \<or> (new = store_after (start_new_game e gs1 gid u k m t (cs_stream_id cs))
              \<and> ended (execute e cfg chat mg gs) =
                  ended (start_new_game e gs1 gid u k m t (cs_stream_id cs)))
          \<or> new = gs1(gid \<mapsto> exit_state)
          \<or> (truthy (game_active old)
              \<and> new = gs1(gid \<mapsto> old\<lparr>game_active := Some False, game_over := Some True\<rparr>))"
      unfolding new_def by blast
    define gid where "gid = session_key cs"
    define old where "old = (case gs gid of None \<Rightarrow> empty_state | Some s \<Rightarrow> s)"
    define gs1 where "gs1 = gs(gid \<mapsto> old)"
    have disp: "new = gs1
          \<or> (new = store_after (handle_question e gs1 gid (group_text (snd mg)) u k m t)
              \<and> ended (execute e cfg chat mg gs) =
                  ended (handle_question e gs1 gid (group_text (snd mg)) u k m t))
          \<or> new = store_after (handle_hint e gs1 gid u k m t)
          \<or> new = store_after (handle_clues e gs1 gid u k m t)
          \<or> new = store_after (handle_guess e gs1 gid (group_text (snd mg)) u k m t)
          \<or> (new = store_after (start_new_game e gs1 gid u k m t (cs_stream_id cs))
              \<and> ended (execute e cfg chat mg gs) =
                  ended (start_new_game e gs1 gid u k m t (cs_stream_id cs)))
          \<or> new = gs1(gid \<mapsto> exit_state)
          \<or> (truthy (game_active old)
              \<and> new = gs1(gid \<mapsto> old\<lparr>game_active := Some False, game_over := Some True\<rparr>))"
      using disp0 unfolding Let_def new_def gid_def old_def gs1_def u_def k_def m_def t_def .
    have old_src: "gs gid = Some old \<or> old = empty_state"
      by (cases "gs gid") (simp_all add: old_def)
    have gs1_gid: "gs1 gid = Some old"
      by (simp add: gs1_def)
    have gs1_other: "gs1 g = gs g" if "g \<noteq> gid"
      using that by (simp add: gs1_def)
    have active_old: "gs gid = Some old" if "truthy (game_active old)"
      using that old_src empty_state_inactive by auto
    have keep: ?goal if "new = gs1"
    proof (cases "g = gid")
      case True
      with that entry' gs1_gid have "st' = old" by simp
      with old_src True show ?thesis by auto
    next
      case False
      with that entry' gs1_other show ?thesis by simp
    qed
    have put: ?goal
      if "new = gs1(gid \<mapsto> y)"
        and "y = exit_state \<or> ?fresh y \<or> (truthy (game_active old) \<and> ?moved old y)" for y
    proof (cases "g = gid")
      case True
      with that(1) entry' have st': "st' = y" by simp
      from that(2) consider "y = exit_state" | "?fresh y"
        | "truthy (game_active old)" "?moved old y" by blast
      then show ?thesis
      proof cases
        case 1
        with st' show ?thesis by simp
      next
        case 2
        with st' show ?thesis by simp
      next
        case 3
        with active_old True have "gs g = Some old" by simp
        with 3 st' show ?thesis by blast
      qed
    next
      case False
      with that(1) entry' gs1_other show ?thesis by simp
    qed
    from disp consider
        (same) "new = gs1"
      | (question) "new = store_after (handle_question e gs1 gid (group_text (snd mg)) u k m t)"
          "ended (execute e cfg chat mg gs) =
             ended (handle_question e gs1 gid (group_text (snd mg)) u k m t)"
      | (hint) "new = store_after (handle_hint e gs1 gid u k m t)"
      | (clues) "new = store_after (handle_clues e gs1 gid u k m t)"
      | (guess) "new = store_after (handle_guess e gs1 gid (group_text (snd mg)) u k m t)"
      | (start) "new = store_after (start_new_game e gs1 gid u k m t (cs_stream_id cs))"
          "ended (execute e cfg chat mg gs) =
             ended (start_new_game e gs1 gid u k m t (cs_stream_id cs))"
      | (exit) "new = gs1(gid \<mapsto> exit_state)"
      | (reveal) "truthy (game_active old)"
          "new = gs1(gid \<mapsto> old\<lparr>game_active := Some False, game_over := Some True\<rparr>)"
      by blast
    then show ?thesis
    proof cases
      case same
      then show ?thesis by (rule keep)
    next
      case question
      from handle_question_store [of e gs1 gid "group_text (snd mg)" u k m t]
      consider "new = gs1" | y where "new = gs1(gid \<mapsto> y)" "?fresh y"
        | st h where "gs1 gid = Some st" "truthy (game_active st)"
            "new = gs1(gid \<mapsto> st\<lparr>guess_history := h\<rparr>)"
        unfolding question by blast
      then show ?thesis
      proof cases
        case 1
        then show ?thesis by (rule keep)
      next
        case 2
        then show ?thesis by (intro put [of y]) auto
      next
        case 3
        with gs1_gid have "st = old" by simp
        with 3 show ?thesis by (intro put [of "old\<lparr>guess_history := h\<rparr>"]) auto
      qed
    next
      case hint
      from handle_hint_store [of e gs1 gid u k m t]
      consider "new = gs1"
        | st where "gs1 gid = Some st" "truthy (game_active st)" "get_hints_used st < 3"
            "new = gs1(gid \<mapsto> st\<lparr>hints_used := Some (get_hints_used st + 1)\<rparr>)"
        unfolding hint by blast
      then show ?thesis
      proof cases
        case 1
        then show ?thesis by (rule keep)
      next
        case 2
        with gs1_gid have "st = old" by simp
        with 2 show ?thesis
          by (intro put [of "old\<lparr>hints_used := Some (get_hints_used old + 1)\<rparr>"]) auto
      qed
    next
      case clues
      then have "new = gs1" by (simp add: handle_clues_store)
      then show ?thesis by (rule keep)
    next
      case guess
      from handle_guess_store [of e gs1 gid "group_text (snd mg)" u k m t]
      consider "new = gs1"
        | st h where "gs1 gid = Some st" "truthy (game_active st)"
            "new = gs1(gid \<mapsto> st\<lparr>guess_history := h\<rparr>)"
        | st h where "gs1 gid = Some st" "truthy (game_active st)"
            "new = gs1(gid \<mapsto> st\<lparr>guess_history := h, game_over := Some True\<rparr>)"
        unfolding guess by blast
      then show ?thesis
      proof cases
        case 1
        then show ?thesis by (rule keep)
      next
        case 2
        with gs1_gid have "st = old" by simp
        with 2 show ?thesis by (intro put [of "old\<lparr>guess_history := h\<rparr>"]) auto
      next
        case 3
        with gs1_gid have "st = old" by simp
        with 3 show ?thesis
          by (intro put [of "old\<lparr>guess_history := h, game_over := Some True\<rparr>"]) auto
      qed
    next
      case start
      from start_new_game_store [of e gs1 gid u k m t "cs_stream_id cs"]
      consider "new = gs1" | y where "new = gs1(gid \<mapsto> y)" "?fresh y"
        unfolding start by blast
      then show ?thesis
      proof cases
        case 1
        then show ?thesis by (rule keep)
      next
        case 2
        then show ?thesis by (intro put [of y]) auto
      qed
    next
      case exit
      then show ?thesis by (intro put [of exit_state]) auto
    next
      case reveal
      then show ?thesis
        by (intro put [of "old\<lparr>game_active := Some False, game_over := Some True\<rparr>"]) auto
    qed
  qed
  then show ?thesis
    unfolding u_def k_def m_def t_def .
qed

text \<open>The example commands, evaluated.\<close>

lemma demo_env: "\<lparr>http_post = http_post (answering txt), str_lower = ascii_lower\<rparr> = answering txt"
  by (simp add: answering_def responding_def)

lemma session_key_demo: "session_key demo_chat = demo_group"
  by (simp add: session_key_def demo_chat_def)

lemma step_demo_start:
  "step ascii_lower (demo_command kw_question None [0x51]) Map.empty =
     Map.empty(demo_group \<mapsto> new_game_state [0x51] [0x51])"
  by (simp add: step_def demo_command_def demo_env execute_def demo_config_ok group_text_def
      py_strip_def is_space_def session_key_demo Let_def kw_defs start_new_game_def
      empty_state_inactive call_answering)

lemma step_demo_hint:
  "step ascii_lower (demo_command kw_hint None [0x68])
      (Map.empty(demo_group \<mapsto> (new_game_state q a)\<lparr>hints_used := Some h\<rparr>)) =
     Map.empty(demo_group \<mapsto> (new_game_state q a)\<lparr>hints_used := Some (if h < 3 then h + 1 else h)\<rparr>)"
  by (simp add: step_def demo_command_def demo_env execute_def demo_config_ok group_text_def
      py_strip_def is_space_def session_key_demo Let_def kw_defs handle_hint_def call_answering
      reply_only_def get_hints_used_def)
    (simp add: new_game_state_def truthy_def)

lemma new_game_hints: "new_game_state q a = (new_game_state q a)\<lparr>hints_used := Some 0\<rparr>"
  by (simp add: new_game_state_def)

lemma run_demo:
  "run ascii_lower [demo_command kw_question None [0x51], demo_command kw_hint None [0x68],
      demo_command kw_hint None [0x68], demo_command kw_hint None [0x68],
      demo_command kw_hint None [0x68]] Map.empty =
    Map.empty(demo_group \<mapsto> (new_game_state [0x51] [0x51])\<lparr>hints_used := Some 3\<rparr>)"
  apply (simp add: step_demo_start)
  apply (subst new_game_hints)
  apply (simp add: step_demo_hint)
  done

section \<open>The hint allowance\<close>

lemma hints_facts:
  "get_hints_used empty_state = 0" "get_hints_used exit_state = 0"
  "get_hints_used (new_game_state q a) = 0"
  "get_hints_used (st\<lparr>guess_history := h\<rparr>) = get_hints_used st"
  "get_hints_used (st\<lparr>guess_history := h, game_over := b\<rparr>) = get_hints_used st"
  "get_hints_used (st\<lparr>game_active := c, game_over := b\<rparr>) = get_hints_used st"
  "get_hints_used (st\<lparr>hints_used := Some n\<rparr>) = n"
  by (simp_all add: get_hints_used_def empty_state_def exit_state_def new_game_state_def)

lemma step_hints:
  assumes "\<forall>g st. gs g = Some st \<longrightarrow> get_hints_used st \<le> 3"
  shows "\<forall>g st. step lower c gs g = Some st \<longrightarrow> get_hints_used st \<le> 3"
proof (intro allI impI)
  fix g st'
  assume "step lower c gs g = Some st'"
  then have "store_after (execute \<lparr>http_post = cmd_http c, str_lower = lower\<rparr>
       (cmd_config c) (cmd_chat c) (cmd_groups c) gs) g = Some st'"
    by (simp add: step_def)
  from execute_entry_cases [OF this] assms show "get_hints_used st' \<le> 3"
    by (auto simp add: hints_facts)
qed

lemma run_hints:
  assumes "\<forall>g st. gs g = Some st \<longrightarrow> get_hints_used st \<le> 3"
  shows "\<forall>g st. run lower cmds gs g = Some st \<longrightarrow> get_hints_used st \<le> 3"
  using assms
proof (induction cmds arbitrary: gs)
  case Nil
  then show ?case by simp
next
  case (Cons c cmds)
  from Cons.prems have "\<forall>g st. step lower c gs g = Some st \<longrightarrow> get_hints_used st \<le> 3"
    by (rule step_hints)
  then show ?case
    using Cons.IH [of "step lower c gs"] by simp
qed

text \<open>
  Claim C4. \<open>hints_used\<close> never exceeds 3: in every store reached from the empty store
  by any sequence of commands, every session has \<open>hints_used\<close> (read as the code reads it,
  0 when the key is missing) at most 3. Each hint served to a session in progress with
  fewer than 3 hints used adds exactly one and changes no other field; a hint requested
  with 3 or more used is rejected: the store is unchanged, the only text sent is the
  rejection, and the collaborator is not called.
\<close>

theorem hints_never_exceed_three:
  "(\<forall>g st. run lower cmds Map.empty g = Some st \<longrightarrow> get_hints_used st \<le> 3)
   \<and> (\<forall>gs g st. gs g = Some st \<and> truthy (game_active st) \<and> get_hints_used st < 3 \<longrightarrow>
         store_after (handle_hint e gs g u k m t) =
           gs(g \<mapsto> st\<lparr>hints_used := Some (get_hints_used st + 1)\<rparr>)
       \<and> ended (handle_hint e gs g u k m t) = Return True reason_hint_done True)
   \<and> (\<forall>gs g st. gs g = Some st \<and> truthy (game_active st) \<and> 3 \<le> get_hints_used st \<longrightarrow>
         store_after (handle_hint e gs g u k m t) = gs
       \<and> sent_texts (handle_hint e gs g u k m t) = [msg_hints_exhausted]
       \<and> llm_calls (handle_hint e gs g u k m t) = []
       \<and> ended (handle_hint e gs g u k m t) = Return False reason_hints_exhausted True)"
proof -
  have 1: "\<forall>g st. run lower cmds Map.empty g = Some st \<longrightarrow> get_hints_used st \<le> 3"
    by (rule run_hints) simp
  have 2: "store_after (handle_hint e gs g u k m t) =
           gs(g \<mapsto> st\<lparr>hints_used := Some (get_hints_used st + 1)\<rparr>)
       \<and> ended (handle_hint e gs g u k m t) = Return True reason_hint_done True"
    if "gs g = Some st" "truthy (game_active st)" "get_hints_used st < 3" for gs g st
    using that by (simp add: handle_hint_def Let_def split_beta)
  have 3: "store_after (handle_hint e gs g u k m t) = gs
       \<and> sent_texts (handle_hint e gs g u k m t) = [msg_hints_exhausted]
       \<and> llm_calls (handle_hint e gs g u k m t) = []
       \<and> ended (handle_hint e gs g u k m t) = Return False reason_hints_exhausted True"
    if "gs g = Some st" "truthy (game_active st)" "3 \<le> get_hints_used st" for gs g st
    using that by (simp add: handle_hint_def reply_only_def)
  from 1 2 3 show ?thesis by blast
qed

theorem hints_never_exceed_three_witness:
  "run ascii_lower [demo_command kw_question None [0x51], demo_command kw_hint None [0x68],
      demo_command kw_hint None [0x68], demo_command kw_hint None [0x68],
      demo_command kw_hint None [0x68]] Map.empty demo_group =
     Some ((new_game_state [0x51] [0x51])\<lparr>hints_used := Some 3\<rparr>)
   \<and> get_hints_used ((new_game_state [0x51] [0x51])\<lparr>hints_used := Some 3\<rparr>) \<le> 3
   \<and> demo_store 2 demo_group = Some (demo_state 2) \<and> truthy (game_active (demo_state 2))
   \<and> get_hints_used (demo_state 2) < 3
   \<and> store_after (handle_hint (answering [0x68]) (demo_store 2) demo_group [0x75] [0x6B] [0x6D] 0.7)
       = (demo_store 2)(demo_group \<mapsto> (demo_state 2)\<lparr>hints_used := Some 3\<rparr>)
   \<and> demo_store 3 demo_group = Some (demo_state 3) \<and> truthy (game_active (demo_state 3))
   \<and> 3 \<le> get_hints_used (demo_state 3)
   \<and> store_after (handle_hint (answering [0x68]) (demo_store 3) demo_group [0x75] [0x6B] [0x6D] 0.7)
       = demo_store 3
   \<and> sent_texts (handle_hint (answering [0x68]) (demo_store 3) demo_group [0x75] [0x6B] [0x6D] 0.7)
       = [msg_hints_exhausted]"
proof -
  note inst = hints_never_exceed_three [of ascii_lower
      "[demo_command kw_question None [0x51], demo_command kw_hint None [0x68],
        demo_command kw_hint None [0x68], demo_command kw_hint None [0x68],
        demo_command kw_hint None [0x68]]"
      "answering [0x68]" "[0x75]" "[0x6B]" "[0x6D]" "0.7"]
  have r: "run ascii_lower [demo_command kw_question None [0x51], demo_command kw_hint None [0x68],
      demo_command kw_hint None [0x68], demo_command kw_hint None [0x68],
      demo_command kw_hint None [0x68]] Map.empty demo_group =
     Some ((new_game_state [0x51] [0x51])\<lparr>hints_used := Some 3\<rparr>)"
    unfolding run_demo by simp
  with inst have 1: "get_hints_used ((new_game_state [0x51] [0x51])\<lparr>hints_used := Some 3\<rparr>) \<le> 3"
    by blast
  have h2: "get_hints_used (demo_state 2) = 2" and h3: "get_hints_used (demo_state 3) = 3"
    by (simp_all add: get_hints_used_def demo_state_def)
  then have lt: "get_hints_used (demo_state 2) < 3" and ge: "3 \<le> get_hints_used (demo_state 3)"
    by simp_all
  from inst demo_store_in_progress(1,2) [of 2] lt
  have "store_after (handle_hint (answering [0x68]) (demo_store 2) demo_group [0x75] [0x6B] [0x6D] 0.7)
       = (demo_store 2)(demo_group \<mapsto>
           (demo_state 2)\<lparr>hints_used := Some (get_hints_used (demo_state 2) + 1)\<rparr>)"
    by blast
  then have 2: "store_after (handle_hint (answering [0x68]) (demo_store 2) demo_group
        [0x75] [0x6B] [0x6D] 0.7)
       = (demo_store 2)(demo_group \<mapsto> (demo_state 2)\<lparr>hints_used := Some 3\<rparr>)"
    by (simp add: h2)
  from inst demo_store_in_progress(1,2) [of 3] ge
  have 3: "store_after (handle_hint (answering [0x68]) (demo_store 3) demo_group
        [0x75] [0x6B] [0x6D] 0.7) = demo_store 3
      \<and> sent_texts (handle_hint (answering [0x68]) (demo_store 3) demo_group
        [0x75] [0x6B] [0x6D] 0.7) = [msg_hints_exhausted]"
    by blast
  from r 1 2 3 lt ge demo_store_in_progress(1,2) [of 2] demo_store_in_progress(1,2) [of 3]
  show ?thesis by simp
qed

section \<open>An active game and its puzzle\<close>

lemma puzzle_facts:
  "current_question (st\<lparr>guess_history := h\<rparr>) = current_question st"
  "current_answer (st\<lparr>guess_history := h\<rparr>) = current_answer st"
  "game_active (st\<lparr>guess_history := h\<rparr>) = game_active st"
  "\<not> truthy (game_active exit_state)"
  "\<not> truthy (game_active (st\<lparr>game_active := Some False, game_over := b\<rparr>))"
  by (simp_all add: exit_state_def truthy_def)

lemma step_puzzle:
  fixes lower c gs
  defines "e \<equiv> \<lparr>http_post = cmd_http c, str_lower = lower\<rparr>"
  assumes inv: "\<forall>g st. gs g = Some st \<and> truthy (game_active st) \<longrightarrow>
      (\<exists>q a. current_question st = Some q \<and> q \<noteq> [] \<and> current_answer st = Some a \<and> a \<noteq> [])"
    and nonblank: "ended (execute e (cmd_config c) (cmd_chat c) (cmd_groups c) gs)
        = Return True reason_started True \<longrightarrow>
      generated_question e (llm_api_url (cmd_config c)) (llm_api_key (cmd_config c))
        (llm_model (cmd_config c)) (llm_temperature (cmd_config c)) \<noteq> []
      \<and> generated_answer e (llm_api_url (cmd_config c)) (llm_api_key (cmd_config c))
        (llm_model (cmd_config c)) (llm_temperature (cmd_config c)) \<noteq> []"
  shows "\<forall>g st. step lower c gs g = Some st \<and> truthy (game_active st) \<longrightarrow>
      (\<exists>q a. current_question st = Some q \<and> q \<noteq> [] \<and> current_answer st = Some a \<and> a \<noteq> [])"
proof (intro allI impI, elim conjE)
  fix g st'
  assume "step lower c gs g = Some st'" and act: "truthy (game_active st')"
  then have "store_after (execute e (cmd_config c) (cmd_chat c) (cmd_groups c) gs) g = Some st'"
    by (simp add: step_def e_def)
  from execute_entry_cases [OF this] inv nonblank act
  show "\<exists>q a. current_question st' = Some q \<and> q \<noteq> [] \<and> current_answer st' = Some a \<and> a \<noteq> []"
    by (elim disjE exE conjE)
      (simp_all add: puzzle_facts empty_state_inactive new_game_state_def)
qed

lemma run_puzzle:
  assumes inv: "\<forall>g st. gs g = Some st \<and> truthy (game_active st) \<longrightarrow>
      (\<exists>q a. current_question st = Some q \<and> q \<noteq> [] \<and> current_answer st = Some a \<and> a \<noteq> [])"
    and starts: "\<forall>pre c post. cmds = pre @ c # post
        \<and> ended (execute \<lparr>http_post = cmd_http c, str_lower = lower\<rparr> (cmd_config c) (cmd_chat c)
              (cmd_groups c) (run lower pre gs)) = Return True reason_started True \<longrightarrow>
      generated_question \<lparr>http_post = cmd_http c, str_lower = lower\<rparr> (llm_api_url (cmd_config c))
        (llm_api_key (cmd_config c)) (llm_model (cmd_config c)) (llm_temperature (cmd_config c)) \<noteq> []
      \<and> generated_answer \<lparr>http_post = cmd_http c, str_lower = lower\<rparr> (llm_api_url (cmd_config c))
        (llm_api_key (cmd_config c)) (llm_model (cmd_config c)) (llm_temperature (cmd_config c)) \<noteq> []"
  shows "\<forall>g st. run lower cmds gs g = Some st \<and> truthy (game_active st) \<longrightarrow>
      (\<exists>q a. current_question st = Some q \<and> q \<noteq> [] \<and> current_answer st = Some a \<and> a \<noteq> [])"
  using assms
proof (induction cmds arbitrary: gs)
  case Nil
  then show ?case by simp
next
  case (Cons c cmds)
  have here: "ended (execute \<lparr>http_post = cmd_http c, str_lower = lower\<rparr> (cmd_config c) (cmd_chat c)
        (cmd_groups c) gs) = Return True reason_started True \<longrightarrow>
      generated_question \<lparr>http_post = cmd_http c, str_lower = lower\<rparr> (llm_api_url (cmd_config c))
        (llm_api_key (cmd_config c)) (llm_model (cmd_config c)) (llm_temperature (cmd_config c)) \<noteq> []
      \<and> generated_answer \<lparr>http_post = cmd_http c, str_lower = lower\<rparr> (llm_api_url (cmd_config c))
        (llm_api_key (cmd_config c)) (llm_model (cmd_config c)) (llm_temperature (cmd_config c)) \<noteq> []"
    using Cons.prems(2) [rule_format, of "[]" c cmds] by simp
  have inv': "\<forall>g st. step lower c gs g = Some st \<and> truthy (game_active st) \<longrightarrow>
      (\<exists>q a. current_question st = Some q \<and> q \<noteq> [] \<and> current_answer st = Some a \<and> a \<noteq> [])"
    by (rule step_puzzle [OF Cons.prems(1) here])
  have rest: "\<forall>pre c' post. cmds = pre @ c' # post
        \<and> ended (execute \<lparr>http_post = cmd_http c', str_lower = lower\<rparr> (cmd_config c') (cmd_chat c')
              (cmd_groups c') (run lower pre (step lower c gs))) = Return True reason_started True \<longrightarrow>
      generated_question \<lparr>http_post = cmd_http c', str_lower = lower\<rparr> (llm_api_url (cmd_config c'))
        (llm_api_key (cmd_config c')) (llm_model (cmd_config c')) (llm_temperature (cmd_config c')) \<noteq> []
      \<and> generated_answer \<lparr>http_post = cmd_http c', str_lower = lower\<rparr> (llm_api_url (cmd_config c'))
        (llm_api_key (cmd_config c')) (llm_model (cmd_config c')) (llm_temperature (cmd_config c')) \<noteq> []"
  proof (intro allI impI, elim conjE)
    fix pre c' post
    assume split: "cmds = pre @ c' # post"
      and started: "ended (execute \<lparr>http_post = cmd_http c', str_lower = lower\<rparr> (cmd_config c')
          (cmd_chat c') (cmd_groups c') (run lower pre (step lower c gs)))
        = Return True reason_started True"
    from split have "c # cmds = (c # pre) @ c' # post"
      by simp
    with started Cons.prems(2) [rule_format, of "c # pre" c' post]
    show "generated_question \<lparr>http_post = cmd_http c', str_lower = lower\<rparr> (llm_api_url (cmd_config c'))
        (llm_api_key (cmd_config c')) (llm_model (cmd_config c')) (llm_temperature (cmd_config c')) \<noteq> []
      \<and> generated_answer \<lparr>http_post = cmd_http c', str_lower = lower\<rparr> (llm_api_url (cmd_config c'))
        (llm_api_key (cmd_config c')) (llm_model (cmd_config c')) (llm_temperature (cmd_config c')) \<noteq> []"
      by simp
  qed
  from Cons.IH [OF inv' rest] show ?case
    by simp
qed

text \<open>
  Claim C1, as stated: whenever \<open>game_active\<close> is true the question and the answer are
  non-empty, also when a collaborator call of the start returns the empty string. It
  fails: \<open>_start_new_game\<close> stores what the collaborator returned, stripped, without
  looking at it (lines 318-342). On the empty store, the start command with the
  collaborator returning the empty string leaves an active session whose question and
  answer are empty.
\<close>

theorem empty_puzzle_counterexample:
  "fst (call_llm_api (answering []) prompt_question (llm_api_url demo_config)
      (llm_api_key demo_config) (llm_model demo_config) (llm_temperature demo_config)) = []
   \<and> store_after (execute (answering []) demo_config (Some demo_chat) (Some kw_question, None)
        Map.empty) demo_group =
      Some \<lparr>current_question = Some [], current_answer = Some [], hints_used = Some 0,
            game_active = Some True, guess_history = Some [], game_over = Some False\<rparr>"
  by (simp add: execute_def demo_config_ok group_text_def py_strip_def is_space_def
      session_key_demo Let_def kw_defs start_new_game_def empty_state_inactive call_answering
      new_game_state_def)

text \<open>
  Claim C1, amended. Take any sequence of commands run from the empty store in which every
  start that runs (a command that ends with "new puzzle generated", at the store the
  commands before it have left) got text that is not blank from its two collaborator
  calls, the one for the question and the one for the answer. Then in the store reached,
  every session whose \<open>game_active\<close> is true has a non-empty question and a non-empty
  answer; nothing is asked of the other collaborator calls, nor of commands that start no
  game. Starting a new game is the only operation that sets \<open>game_active\<close> to true: a
  command after which a session is active that was not active (or not there) before is
  a start that ran, and the session is the fresh dict of line 342, whose question and
  answer are the stripped outputs of the two calls. \<open>_start_new_game\<close> stores those two
  texts without checking them, whenever the session is not in progress.
\<close>

theorem active_game_has_puzzle:
  fixes lower cmds
  defines "env_of \<equiv> \<lambda>c. \<lparr>http_post = cmd_http c, str_lower = lower\<rparr>"
  defines "start_ran \<equiv> \<lambda>c gs. ended (execute (env_of c) (cmd_config c) (cmd_chat c)
      (cmd_groups c) gs) = Return True reason_started True"
  defines "question_of \<equiv> \<lambda>c. generated_question (env_of c) (llm_api_url (cmd_config c))
      (llm_api_key (cmd_config c)) (llm_model (cmd_config c)) (llm_temperature (cmd_config c))"
  defines "answer_of \<equiv> \<lambda>c. generated_answer (env_of c) (llm_api_url (cmd_config c))
      (llm_api_key (cmd_config c)) (llm_model (cmd_config c)) (llm_temperature (cmd_config c))"
  assumes starts: "\<forall>pre c post. cmds = pre @ c # post \<and> start_ran c (run lower pre Map.empty)
      \<longrightarrow> question_of c \<noteq> [] \<and> answer_of c \<noteq> []"
  shows "(\<forall>g st. run lower cmds Map.empty g = Some st \<and> truthy (game_active st) \<longrightarrow>
            (\<exists>q a. current_question st = Some q \<and> q \<noteq> []
                 \<and> current_answer st = Some a \<and> a \<noteq> []))
       \<and> (\<forall>e cfg chat mg gs g st'.
            store_after (execute e cfg chat mg gs) g = Some st' \<and> truthy (game_active st')
            \<and> (\<forall>st. gs g = Some st \<longrightarrow> \<not> truthy (game_active st))
            \<longrightarrow> st' = new_game_state
                  (generated_question e (llm_api_url cfg) (llm_api_key cfg) (llm_model cfg)
                     (llm_temperature cfg))
                  (generated_answer e (llm_api_url cfg) (llm_api_key cfg) (llm_model cfg)
                     (llm_temperature cfg))
              \<and> ended (execute e cfg chat mg gs) = Return True reason_started True)
       \<and> (\<forall>e gs g u k m t sid.
            (\<forall>st. gs g = Some st \<longrightarrow> \<not> truthy (game_active st) \<or> truthy (game_over st))
            \<longrightarrow> store_after (start_new_game e gs g u k m t sid) =
                  gs(g \<mapsto> new_game_state (generated_question e u k m t)
                       (generated_answer e u k m t))
              \<and> ended (start_new_game e gs g u k m t sid) = Return True reason_started True)"
proof -
  have 1: "\<forall>g st. run lower cmds Map.empty g = Some st \<and> truthy (game_active st) \<longrightarrow>
            (\<exists>q a. current_question st = Some q \<and> q \<noteq> []
                 \<and> current_answer st = Some a \<and> a \<noteq> [])"
    by (rule run_puzzle [OF _ starts [unfolded start_ran_def question_of_def answer_of_def
            env_of_def]]) simp
  have 2: "\<forall>e cfg chat mg gs g st'.
            store_after (execute e cfg chat mg gs) g = Some st' \<and> truthy (game_active st')
            \<and> (\<forall>st. gs g = Some st \<longrightarrow> \<not> truthy (game_active st))
            \<longrightarrow> st' = new_game_state
                  (generated_question e (llm_api_url cfg) (llm_api_key cfg) (llm_model cfg)
                     (llm_temperature cfg))
                  (generated_answer e (llm_api_url cfg) (llm_api_key cfg) (llm_model cfg)
                     (llm_temperature cfg))
              \<and> ended (execute e cfg chat mg gs) = Return True reason_started True"
  proof (intro allI impI, elim conjE)
    fix e cfg chat mg gs g st'
    assume entry: "store_after (execute e cfg chat mg gs) g = Some st'"
      and act: "truthy (game_active st')"
      and before: "\<forall>st. gs g = Some st \<longrightarrow> \<not> truthy (game_active st)"
    from execute_entry_cases [OF entry] act before
    show "st' = new_game_state
        (generated_question e (llm_api_url cfg) (llm_api_key cfg) (llm_model cfg)
           (llm_temperature cfg))
        (generated_answer e (llm_api_url cfg) (llm_api_key cfg) (llm_model cfg)
           (llm_temperature cfg))
      \<and> ended (execute e cfg chat mg gs) = Return True reason_started True"
      by (elim disjE exE conjE) (simp_all add: puzzle_facts empty_state_inactive)
  qed
  have 3: "\<forall>e gs g u k m t sid.
            (\<forall>st. gs g = Some st \<longrightarrow> \<not> truthy (game_active st) \<or> truthy (game_over st))
            \<longrightarrow> store_after (start_new_game e gs g u k m t sid) =
                  gs(g \<mapsto> new_game_state (generated_question e u k m t)
                       (generated_answer e u k m t))
              \<and> ended (start_new_game e gs g u k m t sid) = Return True reason_started True"
  proof (intro allI impI)
    fix e and gs :: store and g u k m t sid
    assume "\<forall>st. gs g = Some st \<longrightarrow> \<not> truthy (game_active st) \<or> truthy (game_over st)"
    then show "store_after (start_new_game e gs g u k m t sid) =
        gs(g \<mapsto> new_game_state (generated_question e u k m t) (generated_answer e u k m t))
      \<and> ended (start_new_game e gs g u k m t sid) = Return True reason_started True"
      by (cases "gs g")
        (auto simp add: start_new_game_def Let_def split_beta empty_state_inactive
          generated_question_def generated_answer_def)
  qed
  show ?thesis
    by (rule conjI [OF 1 conjI [OF 2 3]])
qed

lemma two_commands_split:
  assumes "[x, y] = pre @ c # post"
  shows "(pre = [] \<and> c = x) \<or> (pre = [x] \<and> c = y)"
  using assms by (cases pre; cases "tl pre") auto

lemma step_outage_hint:
  "step ascii_lower (outage_command kw_hint None)
      (Map.empty(demo_group \<mapsto> (new_game_state q a)\<lparr>hints_used := Some 0\<rparr>)) =
     Map.empty(demo_group \<mapsto> (new_game_state q a)\<lparr>hints_used := Some 1\<rparr>)"
  by (simp add: step_def outage_command_def execute_def demo_config_ok group_text_def
      py_strip_def is_space_def session_key_demo Let_def kw_defs handle_hint_def split_beta
      get_hints_used_def)
    (simp add: new_game_state_def truthy_def)

lemma outage_hint_starts_nothing:
  "ended (execute \<lparr>http_post = cmd_http (outage_command kw_hint None), str_lower = ascii_lower\<rparr>
      (cmd_config (outage_command kw_hint None)) (cmd_chat (outage_command kw_hint None))
      (cmd_groups (outage_command kw_hint None)) gs) \<noteq> Return True reason_started True"
proof -
  have "reason_hint_done \<noteq> reason_started" "reason_no_game \<noteq> reason_started"
    "reason_hints_exhausted \<noteq> reason_started"
    by (simp_all add: reason_hint_done_def reason_started_def reason_no_game_def
        reason_hints_exhausted_def)
  then show ?thesis
    by (simp add: outage_command_def execute_def demo_config_ok group_text_def
        py_strip_def is_space_def Let_def kw_defs handle_hint_def split_beta reply_only_def)
qed

theorem active_game_has_puzzle_witness:
  "run ascii_lower [demo_command kw_question None [0x51], outage_command kw_hint None] Map.empty
     demo_group = Some ((new_game_state [0x51] [0x51])\<lparr>hints_used := Some 1\<rparr>)
   \<and> truthy (game_active ((new_game_state [0x51] [0x51])\<lparr>hints_used := Some 1\<rparr>))
   \<and> (\<exists>q a. current_question ((new_game_state [0x51] [0x51])\<lparr>hints_used := Some 1\<rparr>) = Some q
         \<and> q \<noteq> []
         \<and> current_answer ((new_game_state [0x51] [0x51])\<lparr>hints_used := Some 1\<rparr>) = Some a
         \<and> a \<noteq> [])"
proof -
  let ?start = "demo_command kw_question None [0x51]"
  let ?hint = "outage_command kw_hint None"
  have texts: "generated_question \<lparr>http_post = cmd_http ?start, str_lower = ascii_lower\<rparr>
        (llm_api_url (cmd_config ?start)) (llm_api_key (cmd_config ?start))
        (llm_model (cmd_config ?start)) (llm_temperature (cmd_config ?start)) \<noteq> []
      \<and> generated_answer \<lparr>http_post = cmd_http ?start, str_lower = ascii_lower\<rparr>
        (llm_api_url (cmd_config ?start)) (llm_api_key (cmd_config ?start))
        (llm_model (cmd_config ?start)) (llm_temperature (cmd_config ?start)) \<noteq> []"
    by (simp add: demo_command_def demo_env generated_question_def generated_answer_def
        call_answering py_strip_def is_space_def)
  have starts: "\<forall>pre c post. [?start, ?hint] = pre @ c # post
      \<and> ended (execute \<lparr>http_post = cmd_http c, str_lower = ascii_lower\<rparr> (cmd_config c)
            (cmd_chat c) (cmd_groups c) (run ascii_lower pre Map.empty))
          = Return True reason_started True \<longrightarrow>
      generated_question \<lparr>http_post = cmd_http c, str_lower = ascii_lower\<rparr>
        (llm_api_url (cmd_config c)) (llm_api_key (cmd_config c)) (llm_model (cmd_config c))
        (llm_temperature (cmd_config c)) \<noteq> []
      \<and> generated_answer \<lparr>http_post = cmd_http c, str_lower = ascii_lower\<rparr>
        (llm_api_url (cmd_config c)) (llm_api_key (cmd_config c)) (llm_model (cmd_config c))
        (llm_temperature (cmd_config c)) \<noteq> []"
  proof (intro allI impI, elim conjE)
    fix pre c post
    assume split: "[?start, ?hint] = pre @ c # post"
      and ran: "ended (execute \<lparr>http_post = cmd_http c, str_lower = ascii_lower\<rparr> (cmd_config c)
            (cmd_chat c) (cmd_groups c) (run ascii_lower pre Map.empty))
          = Return True reason_started True"
    from two_commands_split [OF split] consider "c = ?start" | "c = ?hint"
      by blast
    then show "generated_question \<lparr>http_post = cmd_http c, str_lower = ascii_lower\<rparr>
        (llm_api_url (cmd_config c)) (llm_api_key (cmd_config c)) (llm_model (cmd_config c))
        (llm_temperature (cmd_config c)) \<noteq> []
      \<and> generated_answer \<lparr>http_post = cmd_http c, str_lower = ascii_lower\<rparr>
        (llm_api_url (cmd_config c)) (llm_api_key (cmd_config c)) (llm_model (cmd_config c))
        (llm_temperature (cmd_config c)) \<noteq> []"
    proof cases
      case 1
      with texts show ?thesis by simp
    next
      case 2
      with ran outage_hint_starts_nothing [of "run ascii_lower pre Map.empty"] show ?thesis
        by simp
    qed
  qed
  have r: "run ascii_lower [?start, ?hint] Map.empty demo_group
     = Some ((new_game_state [0x51] [0x51])\<lparr>hints_used := Some 1\<rparr>)"
    apply (simp add: step_demo_start)
    apply (subst new_game_hints)
    apply (simp add: step_outage_hint)
    done
  have act: "truthy (game_active ((new_game_state [0x51] [0x51])\<lparr>hints_used := Some 1\<rparr>))"
    by (simp add: new_game_state_def truthy_def)
  note inv = active_game_has_puzzle [where cmds = "[?start, ?hint]" and lower = ascii_lower,
      OF starts, THEN conjunct1, rule_format, OF conjI [OF r act]]
  show ?thesis
    by (rule conjI [OF r conjI [OF act inv]])
qed

end
